theory Spec2Isabelle
  imports Complex_Main "HOL-Library.Stream" "HOL-Library.Multiset" "HOL-Library.State_Monad"
begin

section \<open>JavaScript numbers\<close>

text \<open>
  A JavaScript \<^verbatim>\<open>number\<close> is modelled as an exact real, or one of the three
  non-finite values. The two signed zeros are identified. The rounding of floating-point
  arithmetic is modelled in the Pearson correlation, whose guard compares a rounded
  value with 0, and nowhere else. The raw numeric fields of a record hold finite numbers
  and are plain reals; the type \<open>number\<close> is used where the source can produce a
  non-finite value from finite operands (a division by zero, the minimum of an empty
  list).
\<close>

datatype number = Fin real | NaN | PosInf | NegInf

fun n_neg :: "number \<Rightarrow> number" where
  "n_neg (Fin x) = Fin (- x)"
| "n_neg NaN = NaN"
| "n_neg PosInf = NegInf"
| "n_neg NegInf = PosInf"

fun n_add :: "number \<Rightarrow> number \<Rightarrow> number" where
  "n_add (Fin x) (Fin y) = Fin (x + y)"
| "n_add NaN _ = NaN"
| "n_add _ NaN = NaN"
| "n_add PosInf NegInf = NaN"
| "n_add NegInf PosInf = NaN"
| "n_add PosInf _ = PosInf"
| "n_add NegInf _ = NegInf"
| "n_add (Fin x) PosInf = PosInf"
| "n_add (Fin x) NegInf = NegInf"

definition n_sub :: "number \<Rightarrow> number \<Rightarrow> number" where
  "n_sub a b = n_add a (n_neg b)"

text \<open>The sign of a product or quotient with an infinite operand.\<close>

definition signed_inf :: "bool \<Rightarrow> number" where
  "signed_inf positive = (if positive then PosInf else NegInf)"

fun n_mul :: "number \<Rightarrow> number \<Rightarrow> number" where
  "n_mul (Fin x) (Fin y) = Fin (x * y)"
| "n_mul NaN _ = NaN"
| "n_mul _ NaN = NaN"
| "n_mul (Fin x) PosInf = (if x = 0 then NaN else signed_inf (0 < x))"
| "n_mul (Fin x) NegInf = (if x = 0 then NaN else signed_inf (x < 0))"
| "n_mul PosInf (Fin y) = (if y = 0 then NaN else signed_inf (0 < y))"
| "n_mul NegInf (Fin y) = (if y = 0 then NaN else signed_inf (y < 0))"
| "n_mul PosInf PosInf = PosInf"
| "n_mul NegInf NegInf = PosInf"
| "n_mul PosInf NegInf = NegInf"
| "n_mul NegInf PosInf = NegInf"

fun n_div :: "number \<Rightarrow> number \<Rightarrow> number" where
  "n_div (Fin x) (Fin y) =
     (if y = 0 then (if x = 0 then NaN else signed_inf (0 < x)) else Fin (x / y))"
| "n_div NaN _ = NaN"
| "n_div _ NaN = NaN"
| "n_div (Fin x) _ = Fin 0"
| "n_div PosInf (Fin y) = signed_inf (0 \<le> y)"
| "n_div NegInf (Fin y) = signed_inf (y < 0)"
| "n_div _ _ = NaN"

fun n_sqrt :: "number \<Rightarrow> number" where
  "n_sqrt (Fin x) = (if x < 0 then NaN else Fin (sqrt x))"
| "n_sqrt PosInf = PosInf"
| "n_sqrt _ = NaN"

text \<open>\<^verbatim>\<open>Math.round\<close> rounds to the nearest integer, a tie towards plus infinity.\<close>

definition math_round :: "real \<Rightarrow> real" where
  "math_round x = of_int \<lfloor>x + 1 / 2\<rfloor>"

definition math_floor :: "real \<Rightarrow> real" where
  "math_floor x = of_int \<lfloor>x\<rfloor>"

fun n_round :: "number \<Rightarrow> number" where
  "n_round (Fin x) = Fin (math_round x)"
| "n_round v = v"

fun n_floor :: "number \<Rightarrow> number" where
  "n_floor (Fin x) = Fin (math_floor x)"
| "n_floor v = v"

text \<open>\<^verbatim>\<open>a < b\<close> on numbers: false as soon as one side is \<^verbatim>\<open>NaN\<close>.\<close>

fun n_less :: "number \<Rightarrow> number \<Rightarrow> bool" where
  "n_less (Fin x) (Fin y) = (x < y)"
| "n_less NaN _ = False"
| "n_less _ NaN = False"
| "n_less PosInf _ = False"
| "n_less _ NegInf = False"
| "n_less _ PosInf = True"
| "n_less NegInf _ = True"

text \<open>\<^verbatim>\<open>Math.min\<close> of two numbers: \<^verbatim>\<open>NaN\<close> as soon as one argument is.\<close>

definition n_min :: "number \<Rightarrow> number \<Rightarrow> number" where
  "n_min a b = (if a = NaN \<or> b = NaN then NaN else if n_less b a then b else a)"

text \<open>Truthiness of a number: \<^verbatim>\<open>0\<close> and \<^verbatim>\<open>NaN\<close> are falsy.\<close>

definition n_truthy :: "number \<Rightarrow> bool" where
  "n_truthy v = (v \<noteq> Fin 0 \<and> v \<noteq> NaN)"

text \<open>
  \<^verbatim>\<open>Number(x.toFixed(d))\<close>: the decimal with \<open>d\<close> fraction digits nearest to \<open>x\<close>, a
  tie away from zero; a magnitude of at least \<open>10^21\<close> is printed in full and read back
  unchanged, as are the non-finite values.
\<close>

definition round_fixed :: "nat \<Rightarrow> real \<Rightarrow> real" where
  "round_fixed d x =
     (if 10 ^ 21 \<le> \<bar>x\<bar> then x
      else sgn x * of_int \<lfloor>\<bar>x\<bar> * 10 ^ d + 1 / 2\<rfloor> / 10 ^ d)"

fun n_toFixed :: "nat \<Rightarrow> number \<Rightarrow> number" where
  "n_toFixed d (Fin x) = Fin (round_fixed d x)"
| "n_toFixed d v = v"

section \<open>The record model\<close>

datatype target = Target0 | Target1

datatype gender = Gender_M | Gender_F | Gender_XNA

datatype flag = Flag_Y | Flag_N

datatype bracket = Low | Mid | High

fun gender_str :: "gender \<Rightarrow> string" where
  "gender_str Gender_M = ''M''"
| "gender_str Gender_F = ''F''"
| "gender_str Gender_XNA = ''XNA''"

fun target_num :: "target \<Rightarrow> real" where
  "target_num Target0 = 0"
| "target_num Target1 = 1"

text \<open>
  The interface \<^verbatim>\<open>HomeCreditRecord\<close>. The six optional derived fields are options:
  \<open>None\<close> is the absent (\<^verbatim>\<open>undefined\<close>) field. The three ratios are quotients of
  raw fields and can be non-finite.
\<close>

record HomeCreditRecord =
  SK_ID_CURR :: real
  TARGET :: target
  CODE_GENDER :: gender
  DAYS_BIRTH :: real
  DAYS_EMPLOYED :: real
  NAME_FAMILY_STATUS :: string
  CNT_CHILDREN :: real
  CNT_FAM_MEMBERS :: real
  NAME_EDUCATION_TYPE :: string
  OCCUPATION_TYPE :: string
  NAME_HOUSING_TYPE :: string
  AMT_INCOME_TOTAL :: real
  AMT_CREDIT :: real
  AMT_ANNUITY :: real
  AMT_GOODS_PRICE :: real
  NAME_CONTRACT_TYPE :: string
  REGION_RATING_CLIENT :: real
  FLAG_OWN_CAR :: flag
  FLAG_OWN_REALTY :: flag
  AGE_YEARS :: "real option"
  EMPLOYMENT_YEARS :: "real option"
  DTI :: "number option"
  LOAN_TO_INCOME :: "number option"
  ANNUITY_TO_CREDIT :: "number option"
  INCOME_BRACKET :: "bracket option"

text \<open>A raw record (no derived field) with a given income, for concrete instances.\<close>

definition sample_record :: "real \<Rightarrow> HomeCreditRecord" where
  "sample_record income =
     \<lparr> SK_ID_CURR = 100000, TARGET = Target0, CODE_GENDER = Gender_F,
       DAYS_BIRTH = - 14610, DAYS_EMPLOYED = - 1461,
       NAME_FAMILY_STATUS = ''Married'', CNT_CHILDREN = 0, CNT_FAM_MEMBERS = 2,
       NAME_EDUCATION_TYPE = ''Higher education'', OCCUPATION_TYPE = ''Managers'',
       NAME_HOUSING_TYPE = ''House / apartment'', AMT_INCOME_TOTAL = income,
       AMT_CREDIT = 500000, AMT_ANNUITY = 25000, AMT_GOODS_PRICE = 450000,
       NAME_CONTRACT_TYPE = ''Cash loans'', REGION_RATING_CLIENT = 2,
       FLAG_OWN_CAR = Flag_N, FLAG_OWN_REALTY = Flag_Y,
       AGE_YEARS = None, EMPLOYMENT_YEARS = None, DTI = None, LOAN_TO_INCOME = None,
       ANNUITY_TO_CREDIT = None, INCOME_BRACKET = None \<rparr>"

section \<open>The synthetic generator: the default-risk score\<close>

definition getDefaultRiskByProfile :: "real \<Rightarrow> real \<Rightarrow> string \<Rightarrow> real \<Rightarrow> real" where
  "getDefaultRiskByProfile age income education employment =
     (let baseRisk = 0.08 :: real;
          baseRisk = (if age < 25 then baseRisk * 1.5
                      else if age < 35 then baseRisk * 1.2
                      else if age > 65 then baseRisk * 1.3
                      else baseRisk);
          baseRisk = (if income < 100000 then baseRisk * 2.0
                      else if income < 200000 then baseRisk * 1.4
                      else if income > 500000 then baseRisk * 0.6
                      else baseRisk);
          baseRisk = (if education = ''Higher education'' \<or> education = ''Academic degree''
                      then baseRisk * 0.7
                      else if education = ''Lower secondary'' then baseRisk * 1.4
                      else baseRisk);
          baseRisk = (if employment < 1 then baseRisk * 1.8
                      else if employment > 10 then baseRisk * 0.8
                      else baseRisk)
      in min 0.5 baseRisk)"

text \<open>
  The adjustment factors as the specification words them: one factor per input, each
  depending on that input alone.
\<close>

definition age_factor :: "real \<Rightarrow> real" where
  "age_factor age = (if age < 25 then 1.5 else if age < 35 then 1.2
                     else if age > 65 then 1.3 else 1)"

definition income_factor :: "real \<Rightarrow> real" where
  "income_factor income = (if income < 100000 then 2.0 else if income < 200000 then 1.4
                           else if income > 500000 then 0.6 else 1)"

definition education_factor :: "string \<Rightarrow> real" where
  "education_factor education =
     (if education = ''Higher education'' \<or> education = ''Academic degree'' then 0.7
      else if education = ''Lower secondary'' then 1.4 else 1)"

definition employment_factor :: "real \<Rightarrow> real" where
  "employment_factor employment =
     (if employment < 1 then 1.8 else if employment > 10 then 0.8 else 1)"

section \<open>Feature derivation\<close>

text \<open>The arrow function of \<^verbatim>\<open>preprocessData\<close>, applied to each record.\<close>

definition preprocessRecord :: "HomeCreditRecord \<Rightarrow> HomeCreditRecord" where
  "preprocessRecord record =
     (let ageYears = - DAYS_BIRTH record / 365.25;
          employmentYears = (if DAYS_EMPLOYED record = 365243 then 0
                             else - DAYS_EMPLOYED record / 365.25);
          dti = n_div (Fin (AMT_ANNUITY record)) (Fin (AMT_INCOME_TOTAL record));
          lti = n_div (Fin (AMT_CREDIT record)) (Fin (AMT_INCOME_TOTAL record));
          annuityToCredit = n_div (Fin (AMT_ANNUITY record)) (Fin (AMT_CREDIT record))
      in record
           \<lparr> AGE_YEARS := Some (math_round (ageYears * 10) / 10),
             EMPLOYMENT_YEARS := Some (max 0 (math_round (employmentYears * 10) / 10)),
             DTI := Some (n_div (n_round (n_mul dti (Fin 1000))) (Fin 1000)),
             LOAN_TO_INCOME := Some (n_div (n_round (n_mul lti (Fin 100))) (Fin 100)),
             ANNUITY_TO_CREDIT :=
               Some (n_div (n_round (n_mul annuityToCredit (Fin 1000))) (Fin 1000)) \<rparr>)"

definition preprocessData :: "HomeCreditRecord list \<Rightarrow> HomeCreditRecord list" where
  "preprocessData records = map preprocessRecord records"

text \<open>
  Reading an array at an index: \<^verbatim>\<open>undefined\<close> (here \<open>None\<close>) out of range. A
  comparison with \<^verbatim>\<open>undefined\<close> is false. The comparator \<^verbatim>\<open>a - b\<close> sorts finite
  numbers ascending.
\<close>

definition js_index :: "'a list \<Rightarrow> nat \<Rightarrow> 'a option" where
  "js_index xs i = (if i < length xs then Some (xs ! i) else None)"

definition le_undef :: "real \<Rightarrow> real option \<Rightarrow> bool" where
  "le_undef x q = (case q of None \<Rightarrow> False | Some v \<Rightarrow> x \<le> v)"

definition ge_undef :: "real \<Rightarrow> real option \<Rightarrow> bool" where
  "ge_undef x q = (case q of None \<Rightarrow> False | Some v \<Rightarrow> x \<ge> v)"

definition addIncomeBrackets :: "HomeCreditRecord list \<Rightarrow> HomeCreditRecord list" where
  "addIncomeBrackets records =
     (let incomes = sort (map AMT_INCOME_TOTAL records);
          q1 = js_index incomes (nat \<lfloor>real (length incomes) * 0.25\<rfloor>);
          q3 = js_index incomes (nat \<lfloor>real (length incomes) * 0.75\<rfloor>)
      in map (\<lambda>record. record
                \<lparr> INCOME_BRACKET :=
                    Some (if le_undef (AMT_INCOME_TOTAL record) q1 then Low
                          else if ge_undef (AMT_INCOME_TOTAL record) q3 then High
                          else Mid) \<rparr>)
           records)"

text \<open>
  Income bracketing as the specification words it: the incomes of the whole collection
  sorted ascending, the quartile values read at the indices \<open>floor (n * 0.25)\<close> and
  \<open>floor (n * 0.75)\<close>, and each record labelled against them.
\<close>

definition quartile_index :: "nat \<Rightarrow> real \<Rightarrow> nat" where
  "quartile_index n p = nat \<lfloor>real n * p\<rfloor>"

definition bracket_label :: "real \<Rightarrow> real \<Rightarrow> real \<Rightarrow> bracket" where
  "bracket_label q1 q3 income =
     (if income \<le> q1 then Low else if income \<ge> q3 then High else Mid)"

definition bracket_spec :: "HomeCreditRecord list \<Rightarrow> HomeCreditRecord list" where
  "bracket_spec records =
     (let sorted_incomes = sort (map AMT_INCOME_TOTAL records);
          n = length records;
          q1 = sorted_incomes ! quartile_index n 0.25;
          q3 = sorted_incomes ! quartile_index n 0.75
      in map (\<lambda>r. r \<lparr> INCOME_BRACKET :=
                          Some (bracket_label q1 q3 (AMT_INCOME_TOTAL r)) \<rparr>) records)"

section \<open>The synthetic generator: records\<close>

text \<open>
  \<^verbatim>\<open>Math.random()\<close> returns a number that is at least 0 and less than 1. The generator
  has no seed parameter: every draw comes from the one global source, which is modelled
  as the stream of the values it will return. A computation that draws is a state
  transformer over this stream.
\<close>

typedef draw = "{x :: real. 0 \<le> x \<and> x < 1}"
  by (rule exI [of _ 0]) simp

type_synonym rng = "draw stream"

definition math_random :: "(rng, real) state" where
  "math_random = State (\<lambda>s. (Rep_draw (shd s), stl s))"

definition educationTypes :: "string list" where
  "educationTypes = [''Secondary / secondary special'', ''Higher education'',
     ''Incomplete higher'', ''Lower secondary'', ''Academic degree'']"

definition familyStatusTypes :: "string list" where
  "familyStatusTypes = [''Married'', ''Single / not married'', ''Civil marriage'',
     ''Separated'', ''Widow'']"

definition housingTypes :: "string list" where
  "housingTypes = [''House / apartment'', ''With parents'', ''Municipal apartment'',
     ''Rented apartment'', ''Office apartment'', ''Co-op apartment'']"

definition occupationTypes :: "string list" where
  "occupationTypes = [''Laborers'', ''Core staff'', ''Sales staff'', ''Managers'',
     ''Drivers'', ''High skill tech staff'', ''Accountants'', ''Medicine staff'',
     ''Security staff'', ''Cooking staff'', ''Cleaning staff'', ''Private service staff'',
     ''Low-skill Laborers'', ''Waiters/barmen staff'', ''Secretaries'', ''Realty agents'',
     ''HR staff'', ''IT staff'']"

definition contractTypes :: "string list" where
  "contractTypes = [''Cash loans'', ''Revolving loans'']"

text \<open>\<^verbatim>\<open>arr[Math.floor(Math.random() * arr.length)]\<close>; the index is in range.\<close>

definition random_element :: "string list \<Rightarrow> (rng, string) state" where
  "random_element arr = do {
     r \<leftarrow> math_random;
     State_Monad.return (arr ! nat \<lfloor>r * real (length arr)\<rfloor>)
   }"

definition randomIncome :: "(rng, real) state" where
  "randomIncome = do {
     let mean = 11.5;
     let stdDev = 0.8;
     r1 \<leftarrow> math_random;
     r2 \<leftarrow> math_random;
     r3 \<leftarrow> math_random;
     let normal = r1 * r2 * r3;
     r4 \<leftarrow> math_random;
     State_Monad.return (exp (mean + stdDev * (normal - 0.5) * 6) * (0.5 + r4 * 0.5))
   }"

text \<open>
  The rejection loop of \<^verbatim>\<open>randomAge\<close>. The candidate age lies between 30 and 54 for
  every pair of draws, so the loop condition never holds and the body runs once; this
  is the termination proof.
\<close>

function randomAge_loop :: "rng \<Rightarrow> real \<times> rng" where
  "randomAge_loop s =
     (let mean = 42;
          stdDev = 12;
          d1 = run_state math_random s;
          d2 = run_state math_random (snd d1);
          age = mean + stdDev * (fst d1 + fst d2 - 1)
      in if age < 18 \<or> age > 80 then randomAge_loop (snd d2)
         else (math_round age, snd d2))"
  by pat_completeness auto
termination
proof (relation "{}")
  show "wf {}" by simp
next
  fix s :: rng and mean stdDev :: real and d1 d2 :: "real \<times> rng" and age :: real
  assume "mean = 42" and "stdDev = 12" and "d1 = run_state math_random s"
    and "d2 = run_state math_random (snd d1)"
    and "age = mean + stdDev * (fst d1 + fst d2 - 1)" and "age < 18 \<or> age > 80"
  moreover have "0 \<le> Rep_draw (shd s) \<and> Rep_draw (shd s) < 1"
    using Rep_draw [of "shd s"] by simp
  moreover have "0 \<le> Rep_draw (shd (stl s)) \<and> Rep_draw (shd (stl s)) < 1"
    using Rep_draw [of "shd (stl s)"] by simp
  ultimately show "(snd d2, s) \<in> {}"
    by (simp add: math_random_def)
qed

declare randomAge_loop.simps [simp del]

definition randomAge :: "(rng, real) state" where
  "randomAge = State randomAge_loop"

definition randomCredit :: "real \<Rightarrow> (rng, real) state" where
  "randomCredit income = do {
     r1 \<leftarrow> math_random;
     let multiplier = 2 + r1 * 6;
     r2 \<leftarrow> math_random;
     State_Monad.return (income * multiplier * (0.8 + r2 * 0.4))
   }"

text \<open>The body of the loop of \<^verbatim>\<open>generateSyntheticData\<close>, for the index \<open>i\<close>.\<close>

definition generateRecord :: "nat \<Rightarrow> (rng, HomeCreditRecord) state" where
  "generateRecord i = do {
     age \<leftarrow> randomAge;
     income \<leftarrow> randomIncome;
     education \<leftarrow> random_element educationTypes;
     r \<leftarrow> math_random;
     employment \<leftarrow> (if r > 0.1
                     then do { r \<leftarrow> math_random; State_Monad.return (r * 25) }
                     else State_Monad.return (- 1));
     let defaultRisk = getDefaultRiskByProfile age income education employment;
     r \<leftarrow> math_random;
     let target = (if r < defaultRisk then Target1 else Target0);
     credit \<leftarrow> randomCredit income;
     r \<leftarrow> math_random;
     let annuity = credit * (0.05 + r * 0.15) / 12;
     r \<leftarrow> math_random;
     code_gender \<leftarrow> (if r > 0.65 then State_Monad.return Gender_F
                     else do {
                       r \<leftarrow> math_random;
                       State_Monad.return (if r > 0.95 then Gender_XNA else Gender_M)
                     });
     name_family_status \<leftarrow> random_element familyStatusTypes;
     r \<leftarrow> math_random;
     cnt_children \<leftarrow> (if r > 0.4 then State_Monad.return 0
                      else do { r \<leftarrow> math_random; State_Monad.return (math_floor (r * 4)) });
     r \<leftarrow> math_random;
     let cnt_fam_members = 1 + math_floor (r * 5);
     r \<leftarrow> math_random;
     occupation_type \<leftarrow> (if r > 0.05 then random_element occupationTypes
                         else State_Monad.return '''');
     name_housing_type \<leftarrow> random_element housingTypes;
     r \<leftarrow> math_random;
     let amt_goods_price = math_round (credit * (0.8 + r * 0.4));
     name_contract_type \<leftarrow> random_element contractTypes;
     r \<leftarrow> math_random;
     let region_rating_client = 1 + math_floor (r * 3);
     r \<leftarrow> math_random;
     let flag_own_car = (if r > 0.5 then Flag_Y else Flag_N);
     r \<leftarrow> math_random;
     let flag_own_realty = (if r > 0.3 then Flag_Y else Flag_N);
     State_Monad.return
       \<lparr> SK_ID_CURR = 100000 + real i,
         TARGET = target,
         CODE_GENDER = code_gender,
         DAYS_BIRTH = - math_round (age * 365.25),
         DAYS_EMPLOYED = (if employment > 0 then - math_round (employment * 365.25)
                          else 365243),
         NAME_FAMILY_STATUS = name_family_status,
         CNT_CHILDREN = cnt_children,
         CNT_FAM_MEMBERS = cnt_fam_members,
         NAME_EDUCATION_TYPE = education,
         OCCUPATION_TYPE = occupation_type,
         NAME_HOUSING_TYPE = name_housing_type,
         AMT_INCOME_TOTAL = math_round income,
         AMT_CREDIT = math_round credit,
         AMT_ANNUITY = math_round annuity,
         AMT_GOODS_PRICE = amt_goods_price,
         NAME_CONTRACT_TYPE = name_contract_type,
         REGION_RATING_CLIENT = region_rating_client,
         FLAG_OWN_CAR = flag_own_car,
         FLAG_OWN_REALTY = flag_own_realty,
         AGE_YEARS = None, EMPLOYMENT_YEARS = None, DTI = None, LOAN_TO_INCOME = None,
         ANNUITY_TO_CREDIT = None, INCOME_BRACKET = None \<rparr>
   }"

text \<open>The loop \<^verbatim>\<open>for (let i = 0; i < numRecords; i++)\<close> pushes one record per index.\<close>

definition generateSyntheticData :: "nat \<Rightarrow> (rng, HomeCreditRecord list) state" where
  "generateSyntheticData numRecords = traverse_list generateRecord [0 ..< numRecords]"

definition generateCompleteDataset :: "nat \<Rightarrow> (rng, HomeCreditRecord list) state" where
  "generateCompleteDataset numRecords = do {
     raw \<leftarrow> generateSyntheticData numRecords;
     let processed = preprocessData raw;
     State_Monad.return (addIncomeBrackets processed)
   }"

text \<open>
  A computation reads at most \<open>k\<close> draws: started on two streams that agree on their
  first \<open>k\<close> elements it returns the same result and consumes the same number of
  draws, at most \<open>k\<close>.
\<close>

definition reads :: "nat \<Rightarrow> (rng, 'a) state \<Rightarrow> bool" where
  "reads k m \<longleftrightarrow>
     (\<forall>s t. stake k s = stake k t \<longrightarrow>
        fst (run_state m s) = fst (run_state m t)
        \<and> (\<exists>j \<le> k. snd (run_state m s) = sdrop j s \<and> snd (run_state m t) = sdrop j t))"

section \<open>The filter engine\<close>

text \<open>
  The interface \<^verbatim>\<open>FilterState\<close>. The income bracket is one of the sidebar's options
  \<^verbatim>\<open>all\<close>, \<^verbatim>\<open>low\<close>, \<^verbatim>\<open>mid\<close>, \<^verbatim>\<open>high\<close>; any other string finds no entry in
  \<^verbatim>\<open>bracketMap\<close> (property names inherited from \<^verbatim>\<open>Object.prototype\<close> are not
  modelled).
\<close>

record FilterState =
  gender :: "string list"
  education :: "string list"
  familyStatus :: "string list"
  housingType :: "string list"
  ageRange :: "real \<times> real"
  incomeBracket :: string
  employmentRange :: "real \<times> real"

definition bracketMap :: "string \<Rightarrow> bracket option" where
  "bracketMap k = (if k = ''low'' then Some Low else if k = ''mid'' then Some Mid
                   else if k = ''high'' then Some High else None)"

text \<open>
  The conditions of the seven \<^verbatim>\<open>if\<close> statements of the callback of
  \<^verbatim>\<open>applyFilters\<close>, in the order of the source. \<^verbatim>\<open>record.AGE_YEARS && (...)\<close> is
  falsy when the field is absent or zero.
\<close>

definition gender_rejects :: "FilterState \<Rightarrow> HomeCreditRecord \<Rightarrow> bool" where
  "gender_rejects filters record \<longleftrightarrow>
     length (gender filters) > 0 \<and> gender_str (CODE_GENDER record) \<notin> set (gender filters)"

definition education_rejects :: "FilterState \<Rightarrow> HomeCreditRecord \<Rightarrow> bool" where
  "education_rejects filters record \<longleftrightarrow>
     length (education filters) > 0 \<and> NAME_EDUCATION_TYPE record \<notin> set (education filters)"

definition familyStatus_rejects :: "FilterState \<Rightarrow> HomeCreditRecord \<Rightarrow> bool" where
  "familyStatus_rejects filters record \<longleftrightarrow>
     length (familyStatus filters) > 0
     \<and> NAME_FAMILY_STATUS record \<notin> set (familyStatus filters)"

definition housingType_rejects :: "FilterState \<Rightarrow> HomeCreditRecord \<Rightarrow> bool" where
  "housingType_rejects filters record \<longleftrightarrow>
     length (housingType filters) > 0
     \<and> NAME_HOUSING_TYPE record \<notin> set (housingType filters)"

definition age_rejects :: "FilterState \<Rightarrow> HomeCreditRecord \<Rightarrow> bool" where
  "age_rejects filters record \<longleftrightarrow>
     (case AGE_YEARS record of
        None \<Rightarrow> False
      | Some a \<Rightarrow> a \<noteq> 0 \<and> (a < fst (ageRange filters) \<or> a > snd (ageRange filters)))"

definition incomeBracket_rejects :: "FilterState \<Rightarrow> HomeCreditRecord \<Rightarrow> bool" where
  "incomeBracket_rejects filters record \<longleftrightarrow>
     incomeBracket filters \<noteq> ''all''
     \<and> INCOME_BRACKET record \<noteq> bracketMap (incomeBracket filters)"

definition employment_rejects :: "FilterState \<Rightarrow> HomeCreditRecord \<Rightarrow> bool" where
  "employment_rejects filters record \<longleftrightarrow>
     (case EMPLOYMENT_YEARS record of
        None \<Rightarrow> False
      | Some e \<Rightarrow> e \<noteq> 0 \<and> (e < fst (employmentRange filters)
                             \<or> e > snd (employmentRange filters)))"

definition filter_callback :: "FilterState \<Rightarrow> HomeCreditRecord \<Rightarrow> bool" where
  "filter_callback filters record =
     (if gender_rejects filters record then False
      else if education_rejects filters record then False
      else if familyStatus_rejects filters record then False
      else if housingType_rejects filters record then False
      else if age_rejects filters record then False
      else if incomeBracket_rejects filters record then False
      else if employment_rejects filters record then False
      else True)"

definition applyFilters :: "HomeCreditRecord list \<Rightarrow> FilterState \<Rightarrow> HomeCreditRecord list" where
  "applyFilters data filters = filter (filter_callback filters) data"

text \<open>The initial filter state of the index page: nothing is constrained.\<close>

definition initialFilters :: FilterState where
  "initialFilters = \<lparr> gender = [], education = [], familyStatus = [], housingType = [],
     ageRange = (18, 80), incomeBracket = ''all'', employmentRange = (0, 40) \<rparr>"

section \<open>Statistics\<close>

text \<open>
  \<^verbatim>\<open>mean\<close> and \<^verbatim>\<open>median\<close> return \<^verbatim>\<open>number | null\<close>; \<open>None\<close> is \<^verbatim>\<open>null\<close>.
  \<^verbatim>\<open>mean\<close> is also applied to the ratio fields and so works on \<open>number\<close>.
  \<^verbatim>\<open>median\<close> sorts a copy with the comparator \<^verbatim>\<open>a - b\<close>, which on finite numbers
  is the ascending order; it is applied to ages and incomes only.
\<close>

definition mean :: "number list \<Rightarrow> number option" where
  "mean vals =
     (if length vals = 0 then None
      else Some (n_div (foldl n_add (Fin 0) vals) (Fin (real (length vals)))))"

definition median :: "real list \<Rightarrow> real option" where
  "median vals =
     (if length vals = 0 then None
      else let sorted = sort vals;
               mid = length sorted div 2
           in if length sorted mod 2 = 0
              then Some ((sorted ! (mid - 1) + sorted ! mid) / 2)
              else Some (sorted ! mid))"

section \<open>KPI aggregation\<close>

text \<open>
  The object returned by \<^verbatim>\<open>calculateKPIs\<close> is the list of its properties in the order
  of the object literal; \<^verbatim>\<open>{}\<close> is the empty list. A property that is not in the list
  reads as \<^verbatim>\<open>undefined\<close>.
\<close>

type_synonym kpis = "(string \<times> number) list"

text \<open>Truthiness of an optional numeric field: absent and zero are falsy.\<close>

definition truthy_field :: "real option \<Rightarrow> bool" where
  "truthy_field v = (case v of None \<Rightarrow> False | Some x \<Rightarrow> x \<noteq> 0)"

text \<open>\<^verbatim>\<open>r.DTI && r.DTI > 0\<close> on a ratio field.\<close>

definition positive_ratio :: "number option \<Rightarrow> bool" where
  "positive_ratio v = (case v of None \<Rightarrow> False | Some x \<Rightarrow> n_truthy x \<and> n_less (Fin 0) x)"

text \<open>
  \<^verbatim>\<open>Number(v?.toFixed(d) || 0)\<close>: \<^verbatim>\<open>null\<close> gives 0; a number gives its rounding (the
  string that \<^verbatim>\<open>toFixed\<close> returns is never empty, hence truthy).
\<close>

definition fixed_or_zero :: "nat \<Rightarrow> number option \<Rightarrow> number" where
  "fixed_or_zero d v = (case v of None \<Rightarrow> Fin 0 | Some x \<Rightarrow> n_toFixed d x)"

text \<open>\<^verbatim>\<open>null\<close> as an operand of a subtraction is 0.\<close>

definition null_to_zero :: "number option \<Rightarrow> number" where
  "null_to_zero v = (case v of None \<Rightarrow> Fin 0 | Some x \<Rightarrow> x)"

text \<open>\<^verbatim>\<open>Object.keys(record).length\<close>: the 19 raw fields and the derived fields present.\<close>

definition keys_length :: "HomeCreditRecord \<Rightarrow> real" where
  "keys_length r =
     19 + (if AGE_YEARS r = None then 0 else 1)
        + (if EMPLOYMENT_YEARS r = None then 0 else 1)
        + (if DTI r = None then 0 else 1)
        + (if LOAN_TO_INCOME r = None then 0 else 1)
        + (if ANNUITY_TO_CREDIT r = None then 0 else 1)
        + (if INCOME_BRACKET r = None then 0 else 1)"

definition calculateKPIs :: "HomeCreditRecord list \<Rightarrow> kpis" where
  "calculateKPIs data =
     (if length data = 0 then []
      else
        let totalApplicants = real (length data);
            totalDefaults = real (length (filter (\<lambda>r. TARGET r = Target1) data));
            defaultRate = (totalDefaults / totalApplicants) * 100;
            repaidRate = 100 - defaultRate;
            ages = map (\<lambda>r. the (AGE_YEARS r)) (filter (\<lambda>r. truthy_field (AGE_YEARS r)) data);
            incomes = map AMT_INCOME_TOTAL data;
            credits = map AMT_CREDIT data;
            annuities = map AMT_ANNUITY (filter (\<lambda>r. AMT_ANNUITY r \<noteq> 0) data);
            medianAge = median ages;
            medianIncome = median incomes;
            avgCredit = mean (map Fin credits);
            avgAnnuity = mean (map Fin annuities);
            totalFeatures = keys_length (hd data);
            numericalFeatures = 6;
            categoricalFeatures = totalFeatures - numericalFeatures;
            dtiValues = map (\<lambda>r. the (DTI r)) (filter (\<lambda>r. positive_ratio (DTI r)) data);
            ltiValues = map (\<lambda>r. the (LOAN_TO_INCOME r))
                          (filter (\<lambda>r. positive_ratio (LOAN_TO_INCOME r)) data);
            avgDTI = mean dtiValues;
            avgLTI = mean ltiValues;
            maleCount = real (length (filter (\<lambda>r. CODE_GENDER r = Gender_M) data));
            femaleCount = real (length (filter (\<lambda>r. CODE_GENDER r = Gender_F) data));
            withChildrenCount = real (length (filter (\<lambda>r. CNT_CHILDREN r > 0) data));
            defaulterIncomes = map AMT_INCOME_TOTAL (filter (\<lambda>r. TARGET r = Target1) data);
            nonDefaulterIncomes = map AMT_INCOME_TOTAL (filter (\<lambda>r. TARGET r = Target0) data);
            avgIncomeDefaulters = mean (map Fin defaulterIncomes);
            avgIncomeNonDefaulters = mean (map Fin nonDefaulterIncomes)
        in [ (''totalApplicants'', Fin totalApplicants),
             (''defaultRate'', Fin (round_fixed 2 defaultRate)),
             (''repaidRate'', Fin (round_fixed 2 repaidRate)),
             (''totalFeatures'', Fin totalFeatures),
             (''numericalFeatures'', Fin numericalFeatures),
             (''categoricalFeatures'', Fin categoricalFeatures),
             (''medianAge'', fixed_or_zero 1 (map_option Fin medianAge)),
             (''medianIncome'', fixed_or_zero 0 (map_option Fin medianIncome)),
             (''avgCredit'', fixed_or_zero 0 avgCredit),
             (''totalDefaults'', Fin totalDefaults),
             (''avgIncomeDefaulters'', fixed_or_zero 0 avgIncomeDefaulters),
             (''avgIncomeNonDefaulters'', fixed_or_zero 0 avgIncomeNonDefaulters),
             (''incomeGap'',
                n_toFixed 0 (n_sub (null_to_zero avgIncomeNonDefaulters)
                                   (null_to_zero avgIncomeDefaulters))),
             (''malePercentage'', Fin (round_fixed 1 ((maleCount / totalApplicants) * 100))),
             (''femalePercentage'',
                Fin (round_fixed 1 ((femaleCount / totalApplicants) * 100))),
             (''withChildrenPercentage'',
                Fin (round_fixed 1 ((withChildrenCount / totalApplicants) * 100))),
             (''avgFamilySize'', fixed_or_zero 1 (mean (map Fin (map CNT_FAM_MEMBERS data)))),
             (''avgIncome'', fixed_or_zero 0 (mean (map Fin incomes))),
             (''avgAnnuity'', fixed_or_zero 0 avgAnnuity),
             (''avgDTI'', fixed_or_zero 3 avgDTI),
             (''avgLTI'', fixed_or_zero 2 avgLTI),
             (''highCreditPercentage'',
                Fin (round_fixed 1
                  ((real (length (filter (\<lambda>r. AMT_CREDIT r > 1000000) data))
                      / totalApplicants) * 100))) ])"

text \<open>The names of the metrics, as the object literal of \<^verbatim>\<open>calculateKPIs\<close> lists them.\<close>

definition kpi_names :: "string list" where
  "kpi_names =
     [''totalApplicants'', ''defaultRate'', ''repaidRate'', ''totalFeatures'',
      ''numericalFeatures'', ''categoricalFeatures'', ''medianAge'', ''medianIncome'',
      ''avgCredit'', ''totalDefaults'', ''avgIncomeDefaulters'', ''avgIncomeNonDefaulters'',
      ''incomeGap'', ''malePercentage'', ''femalePercentage'', ''withChildrenPercentage'',
      ''avgFamilySize'', ''avgIncome'', ''avgAnnuity'', ''avgDTI'', ''avgLTI'',
      ''highCreditPercentage'']"

section \<open>Chart data: histogram bins\<close>

datatype js_error = TypeError

text \<open>
  One element of the array \<^verbatim>\<open>bins\<close>. The label \<^verbatim>\<open>range\<close> is kept as the pair of
  rounded bounds that the template string prints.
\<close>

record bin =
  range_bin :: "number \<times> number"
  count_bin :: nat
  min_bin :: number
  max_bin :: number

definition n_max :: "number \<Rightarrow> number \<Rightarrow> number" where
  "n_max a b = (if a = NaN \<or> b = NaN then NaN else if n_less a b then b else a)"

text \<open>
  \<^verbatim>\<open>Math.min(...values)\<close> and \<^verbatim>\<open>Math.max(...values)\<close>: plus and minus infinity
  for no argument.
\<close>

definition math_min :: "real list \<Rightarrow> number" where
  "math_min vals = foldl n_min PosInf (map Fin vals)"

definition math_max :: "real list \<Rightarrow> number" where
  "math_max vals = foldl n_max NegInf (map Fin vals)"

text \<open>
  \<^verbatim>\<open>bins[binIndex]\<close>: an element of the array when the index is an integer from 0 up
  to the length, \<^verbatim>\<open>undefined\<close> otherwise (in particular for \<^verbatim>\<open>NaN\<close>).
\<close>

definition array_slot :: "number \<Rightarrow> nat \<Rightarrow> nat option" where
  "array_slot v n =
     (case v of
        Fin x \<Rightarrow> if 0 \<le> x \<and> x = of_int \<lfloor>x\<rfloor> \<and> nat \<lfloor>x\<rfloor> < n then Some (nat \<lfloor>x\<rfloor>) else None
      | _ \<Rightarrow> None)"

text \<open>
  The \<^verbatim>\<open>forEach\<close> loop of \<^verbatim>\<open>createBins\<close>: \<^verbatim>\<open>bins[binIndex].count++\<close> throws a
  \<^verbatim>\<open>TypeError\<close> when \<^verbatim>\<open>bins[binIndex]\<close> is \<^verbatim>\<open>undefined\<close>.
\<close>

fun count_values :: "number \<Rightarrow> number \<Rightarrow> nat \<Rightarrow> real list \<Rightarrow> bin list \<Rightarrow> js_error + bin list" where
  "count_values mn binSize numBins [] bins = Inr bins"
| "count_values mn binSize numBins (val # rest) bins =
     (let binIndex = n_min (n_floor (n_div (n_sub (Fin val) mn) binSize))
                           (Fin (real numBins - 1))
      in case array_slot binIndex (length bins) of
           None \<Rightarrow> Inl TypeError
         | Some k \<Rightarrow>
             count_values mn binSize numBins rest
               (bins [k := (bins ! k) \<lparr> count_bin := count_bin (bins ! k) + 1 \<rparr>]))"

definition createBins :: "real list \<Rightarrow> nat \<Rightarrow> js_error + bin list" where
  "createBins vals numBins =
     (let mn = math_min vals;
          mx = math_max vals;
          binSize = n_div (n_sub mx mn) (Fin (real numBins));
          bins = map (\<lambda>i.
                   \<lparr> range_bin = (n_round (n_add mn (n_mul (Fin (real i)) binSize)),
                                  n_round (n_add mn (n_mul (Fin (real (i + 1))) binSize))),
                     count_bin = 0,
                     min_bin = n_add mn (n_mul (Fin (real i)) binSize),
                     max_bin = n_add mn (n_mul (Fin (real (i + 1))) binSize) \<rparr>)
                   [0 ..< numBins]
      in count_values mn binSize numBins vals bins)"

section \<open>Pearson correlation\<close>

text \<open>
  The sums of \<^verbatim>\<open>calculatePearsonCorrelation\<close> are computed in IEEE 754 doubles, and
  the guard \<^verbatim>\<open>denominator === 0\<close> tests the rounded value, so here the rounding is
  modelled: every arithmetic result is the double nearest to the exact result, a tie
  going to the even significand. A double has a significand of 53 bits; below
  \<open>2^(-1022)\<close> the spacing stays \<open>2^(-1074)\<close>, and a rounded magnitude of \<open>2^1024\<close> or
  more is an infinity.
\<close>

definition pow2 :: "int \<Rightarrow> real" where
  "pow2 e = (if 0 \<le> e then 2 ^ nat e else 1 / 2 ^ nat (- e))"

definition round_half_even :: "real \<Rightarrow> int" where
  "round_half_even q =
     (let f = \<lfloor>q\<rfloor>; d = q - of_int f
      in if d < 1 / 2 then f else if 1 / 2 < d then f + 1
         else if even f then f else f + 1)"

text \<open>
  The binary exponent \<open>e\<close> of a positive number, \<open>2^e \<le> x < 2^(e + 1)\<close>, searched for
  in at most \<open>n\<close> steps; 1100 steps cover the whole exponent range of a double.
\<close>

fun binary_exponent :: "nat \<Rightarrow> real \<Rightarrow> int" where
  "binary_exponent 0 x = 0"
| "binary_exponent (Suc n) x =
     (if 2 \<le> x then 1 + binary_exponent n (x / 2)
      else if x < 1 then binary_exponent n (x * 2) - 1
      else 0)"

definition to_double :: "real \<Rightarrow> number" where
  "to_double x =
     (if x = 0 then Fin 0
      else
        let e = max (binary_exponent 1100 \<bar>x\<bar>) (- 1022);
            ulp = pow2 (e - 52);
            r = of_int (round_half_even (x / ulp)) * ulp
        in if 2 ^ 1024 \<le> \<bar>r\<bar> then signed_inf (0 < r) else Fin r)"

fun n_fl :: "number \<Rightarrow> number" where
  "n_fl (Fin x) = to_double x"
| "n_fl v = v"

definition d_add :: "number \<Rightarrow> number \<Rightarrow> number" where
  "d_add a b = n_fl (n_add a b)"

definition d_sub :: "number \<Rightarrow> number \<Rightarrow> number" where
  "d_sub a b = n_fl (n_sub a b)"

definition d_mul :: "number \<Rightarrow> number \<Rightarrow> number" where
  "d_mul a b = n_fl (n_mul a b)"

definition d_div :: "number \<Rightarrow> number \<Rightarrow> number" where
  "d_div a b = n_fl (n_div a b)"

definition d_sqrt :: "number \<Rightarrow> number" where
  "d_sqrt a = n_fl (n_sqrt a)"

text \<open>
  \<^verbatim>\<open>calculatePearsonCorrelation\<close> is private to its module and is called by
  \<^verbatim>\<open>calculateCorrelations\<close> only, with two of the ten names of \<^verbatim>\<open>numericalFields\<close>;
  its field arguments are modelled by this enumeration. \<open>field_value\<close> is the lookup
  \<^verbatim>\<open>r[field]\<close>; \<open>None\<close> is the absent field. The program holds in a field the
  double nearest to the real that the record of the model holds, and \<^verbatim>\<open>Number\<close>
  returns it unchanged.
\<close>

datatype numerical_field =
  F_AGE_YEARS | F_EMPLOYMENT_YEARS | F_AMT_INCOME_TOTAL | F_AMT_CREDIT | F_AMT_ANNUITY
  | F_DTI | F_LOAN_TO_INCOME | F_CNT_CHILDREN | F_CNT_FAM_MEMBERS | F_TARGET

definition numericalFields :: "numerical_field list" where
  "numericalFields =
     [F_AGE_YEARS, F_EMPLOYMENT_YEARS, F_AMT_INCOME_TOTAL, F_AMT_CREDIT, F_AMT_ANNUITY,
      F_DTI, F_LOAN_TO_INCOME, F_CNT_CHILDREN, F_CNT_FAM_MEMBERS, F_TARGET]"

fun field_value :: "numerical_field \<Rightarrow> HomeCreditRecord \<Rightarrow> number option" where
  "field_value F_AGE_YEARS r = map_option Fin (AGE_YEARS r)"
| "field_value F_EMPLOYMENT_YEARS r = map_option Fin (EMPLOYMENT_YEARS r)"
| "field_value F_AMT_INCOME_TOTAL r = Some (Fin (AMT_INCOME_TOTAL r))"
| "field_value F_AMT_CREDIT r = Some (Fin (AMT_CREDIT r))"
| "field_value F_AMT_ANNUITY r = Some (Fin (AMT_ANNUITY r))"
| "field_value F_DTI r = DTI r"
| "field_value F_LOAN_TO_INCOME r = LOAN_TO_INCOME r"
| "field_value F_CNT_CHILDREN r = Some (Fin (CNT_CHILDREN r))"
| "field_value F_CNT_FAM_MEMBERS r = Some (Fin (CNT_FAM_MEMBERS r))"
| "field_value F_TARGET r = Some (Fin (target_num (TARGET r)))"

definition valid_pairs ::
  "HomeCreditRecord list \<Rightarrow> numerical_field \<Rightarrow> numerical_field \<Rightarrow> (number \<times> number) list" where
  "valid_pairs data field1 field2 =
     map (\<lambda>r. (n_fl (the (field_value field1 r)), n_fl (the (field_value field2 r))))
       (filter (\<lambda>r. field_value field1 r \<noteq> None \<and> field_value field2 r \<noteq> None) data)"

definition calculatePearsonCorrelation ::
  "HomeCreditRecord list \<Rightarrow> numerical_field \<Rightarrow> numerical_field \<Rightarrow> number" where
  "calculatePearsonCorrelation data field1 field2 =
     (let pairs = valid_pairs data field1 field2
      in if length pairs < 2 then Fin 0
         else
           let n = Fin (real (length pairs));
               sumX = foldl (\<lambda>sum (x, y). d_add sum x) (Fin 0) pairs;
               sumY = foldl (\<lambda>sum (x, y). d_add sum y) (Fin 0) pairs;
               sumXY = foldl (\<lambda>sum (x, y). d_add sum (d_mul x y)) (Fin 0) pairs;
               sumXX = foldl (\<lambda>sum (x, y). d_add sum (d_mul x x)) (Fin 0) pairs;
               sumYY = foldl (\<lambda>sum (x, y). d_add sum (d_mul y y)) (Fin 0) pairs;
               numerator = d_sub (d_mul n sumXY) (d_mul sumX sumY);
               denominator = d_sqrt (d_mul (d_sub (d_mul n sumXX) (d_mul sumX sumX))
                                           (d_sub (d_mul n sumYY) (d_mul sumY sumY)))
           in if denominator = Fin 0 then Fin 0 else d_div numerator denominator)"

definition calculateCorrelations ::
  "HomeCreditRecord list \<Rightarrow> (numerical_field \<times> (numerical_field \<times> number) list) list" where
  "calculateCorrelations data =
     map (\<lambda>field1.
            (field1, map (\<lambda>field2. (field2, calculatePearsonCorrelation data field1 field2))
                       numericalFields))
       numericalFields"

text \<open>Three applicants of the same age, 30.1 years, with different incomes.\<close>

definition same_age_records :: "HomeCreditRecord list" where
  "same_age_records =
     [(sample_record 100000) \<lparr> AGE_YEARS := Some 30.1 \<rparr>,
      (sample_record 200000) \<lparr> AGE_YEARS := Some 30.1 \<rparr>,
      (sample_record 300000) \<lparr> AGE_YEARS := Some 30.1 \<rparr>]"

section \<open>Theorems\<close>

subsection \<open>The default-risk score\<close>

lemma risk_composed:
  "getDefaultRiskByProfile age income edu employment =
     min 0.5 (0.08 * age_factor age * income_factor income
              * education_factor edu * employment_factor employment)"
proof -
  define b1 where "b1 = 0.08 * age_factor age"
  define b2 where "b2 = b1 * income_factor income"
  define b3 where "b3 = b2 * education_factor edu"
  define b4 where "b4 = b3 * employment_factor employment"
  have s1: "(if age < 25 then 0.08 * 1.5 else if age < 35 then 0.08 * 1.2
             else if age > 65 then 0.08 * 1.3 else (0.08::real)) = b1"
    by (simp add: b1_def age_factor_def)
  have s2: "(if income < 100000 then b1 * 2.0 else if income < 200000 then b1 * 1.4
             else if income > 500000 then b1 * 0.6 else b1) = b2"
    by (simp add: b2_def income_factor_def)
  have s3: "(if edu = ''Higher education'' \<or> edu = ''Academic degree''
             then b2 * 0.7
             else if edu = ''Lower secondary'' then b2 * 1.4 else b2) = b3"
    by (simp add: b3_def education_factor_def)
  have s4: "(if employment < 1 then b3 * 1.8 else if employment > 10 then b3 * 0.8
             else b3) = b4"
    by (simp add: b4_def employment_factor_def)
  have "getDefaultRiskByProfile age income edu employment = min 0.5 b4"
    unfolding getDefaultRiskByProfile_def Let_def s1 s2 s3 s4 ..
  then show ?thesis
    by (simp add: b4_def b3_def b2_def b1_def)
qed

text \<open>
  C6. For every age, income, education and employment tenure the default-risk score is
  the 8% baseline times four independent factors, capped at 0.5. The age factor is
  elevated below 25 (1.5) and above 65 (1.3) and lower in between (1.2 from 25 to 35,
  1 from 35 to 65); the income factor is a penalty below 100k (2.0) and below 200k (1.4)
  and a discount above 500k (0.6); the education factor is a discount for higher
  education and academic degrees (0.7) and a penalty for lower secondary (1.4); the
  employment factor is a penalty under one year (1.8) and a discount over ten (0.8).
\<close>

theorem getDefaultRiskByProfile_factors:
  "getDefaultRiskByProfile age income edu employment =
     min 0.5 (0.08 * age_factor age * income_factor income
              * education_factor edu * employment_factor employment)
   \<and> getDefaultRiskByProfile age income edu employment \<le> 0.5
   \<and> (age < 25 \<longrightarrow> age_factor age = 1.5) \<and> (age > 65 \<longrightarrow> age_factor age = 1.3)
   \<and> (25 \<le> age \<and> age \<le> 65 \<longrightarrow> age_factor age \<le> 1.2)
   \<and> (income < 100000 \<longrightarrow> income_factor income = 2.0)
   \<and> (100000 \<le> income \<and> income < 200000 \<longrightarrow> income_factor income = 1.4)
   \<and> (income > 500000 \<longrightarrow> income_factor income = 0.6)
   \<and> (edu = ''Higher education'' \<or> edu = ''Academic degree''
        \<longrightarrow> education_factor edu = 0.7)
   \<and> (edu = ''Lower secondary'' \<longrightarrow> education_factor edu = 1.4)
   \<and> (employment < 1 \<longrightarrow> employment_factor employment = 1.8)
   \<and> (employment > 10 \<longrightarrow> employment_factor employment = 0.8)"
proof -
  have capped: "getDefaultRiskByProfile age income edu employment \<le> 0.5"
    unfolding risk_composed by simp
  have ages: "(age < 25 \<longrightarrow> age_factor age = 1.5) \<and> (age > 65 \<longrightarrow> age_factor age = 1.3)
      \<and> (25 \<le> age \<and> age \<le> 65 \<longrightarrow> age_factor age \<le> 1.2)"
    by (simp add: age_factor_def)
  have incomes: "(income < 100000 \<longrightarrow> income_factor income = 2.0)
      \<and> (100000 \<le> income \<and> income < 200000 \<longrightarrow> income_factor income = 1.4)
      \<and> (income > 500000 \<longrightarrow> income_factor income = 0.6)"
    by (simp add: income_factor_def)
  have educations: "(edu = ''Higher education'' \<or> edu = ''Academic degree''
        \<longrightarrow> education_factor edu = 0.7)
      \<and> (edu = ''Lower secondary'' \<longrightarrow> education_factor edu = 1.4)"
    by (simp add: education_factor_def)
  have employments: "(employment < 1 \<longrightarrow> employment_factor employment = 1.8)
      \<and> (employment > 10 \<longrightarrow> employment_factor employment = 0.8)"
    by (simp add: employment_factor_def)
  from risk_composed capped ages incomes educations employments show ?thesis
    by blast
qed

theorem getDefaultRiskByProfile_factors_witness:
  "getDefaultRiskByProfile 22 150000 ''Lower secondary'' 0.5 = 0.42336
   \<and> getDefaultRiskByProfile 22 50000 ''Lower secondary'' 0.5 = 0.5
   \<and> age_factor 22 = 1.5 \<and> age_factor 70 = 1.3 \<and> age_factor 40 \<le> 1.2
   \<and> income_factor 50000 = 2.0 \<and> income_factor 150000 = 1.4
   \<and> income_factor 600000 = 0.6 \<and> education_factor ''Academic degree'' = 0.7
   \<and> education_factor ''Lower secondary'' = 1.4
   \<and> employment_factor 0.5 = 1.8 \<and> employment_factor 12 = 0.8"
  using getDefaultRiskByProfile_factors [of 22 150000 "''Lower secondary''" "0.5"]
    getDefaultRiskByProfile_factors [of 22 50000 "''Lower secondary''" "0.5"]
    getDefaultRiskByProfile_factors [of 70 600000 "''Academic degree''" 12]
    getDefaultRiskByProfile_factors [of 40 600000 "''Academic degree''" 12]
  by (simp add: age_factor_def income_factor_def education_factor_def
      employment_factor_def)

subsection \<open>Mean and median\<close>

lemma foldl_n_add_Fin: "foldl n_add (Fin a) (map Fin xs) = Fin (a + sum_list xs)"
  by (induction xs arbitrary: a) (simp_all add: add.assoc)

lemma mean_Fin: "xs \<noteq> [] \<Longrightarrow> mean (map Fin xs) = Some (Fin (sum_list xs / real (length xs)))"
  by (simp add: mean_def foldl_n_add_Fin)

text \<open>
  C7. \<open>mean\<close> and \<open>median\<close> return the sentinel \<open>None\<close> exactly on the empty list and
  a number otherwise (on finite values the mean is the sum over the length); \<open>median\<close>
  sorts ascending and returns the middle element for an odd length and the average of
  the two middle elements for an even length; the median of 1, 2, 3, 4 is 2.5 and that
  of 1, 2, 3 is 2.
\<close>

theorem mean_median_sentinel:
  "(mean vs = None \<longleftrightarrow> vs = [])
   \<and> (median xs = None \<longleftrightarrow> xs = [])
   \<and> (xs \<noteq> [] \<longrightarrow> mean (map Fin xs) = Some (Fin (sum_list xs / real (length xs))))
   \<and> (xs \<noteq> [] \<and> odd (length xs) \<longrightarrow> median xs = Some (sort xs ! (length xs div 2)))
   \<and> (xs \<noteq> [] \<and> even (length xs) \<longrightarrow>
        median xs = Some ((sort xs ! (length xs div 2 - 1) + sort xs ! (length xs div 2)) / 2))
   \<and> sorted (sort xs) \<and> mset (sort xs) = mset xs
   \<and> median [1, 2, 3, 4] = Some 2.5 \<and> median [1, 2, 3] = Some 2"
proof -
  have m: "mean vs = None \<longleftrightarrow> vs = []"
    by (simp add: mean_def)
  have d: "median xs = None \<longleftrightarrow> xs = []"
  proof (cases "xs = []")
    case True
    then show ?thesis by (simp add: median_def)
  next
    case False
    then have "median xs \<noteq> None"
      unfolding median_def Let_def by (cases "length (sort xs) mod 2 = 0") simp_all
    with False show ?thesis by simp
  qed
  have odd_case: "xs \<noteq> [] \<and> odd (length xs) \<longrightarrow> median xs = Some (sort xs ! (length xs div 2))"
    by (simp add: median_def Let_def odd_iff_mod_2_eq_one)
  have even_case: "xs \<noteq> [] \<and> even (length xs) \<longrightarrow>
        median xs = Some ((sort xs ! (length xs div 2 - 1) + sort xs ! (length xs div 2)) / 2)"
    by (simp add: median_def Let_def even_iff_mod_2_eq_zero)
  have e4: "median [1, 2, 3, 4] = Some 2.5"
    by (simp add: median_def Let_def)
  have e3: "median [1, 2, 3] = Some 2"
    by (simp add: median_def Let_def)
  from m d odd_case even_case e4 e3 mean_Fin [of xs] show ?thesis
    by (simp del: sort_key_simps)
qed

theorem mean_median_sentinel_witness:
  "mean [Fin 3, Fin 1, Fin 2] = Some (Fin 2) \<and> mean [] = None
   \<and> median [3, 1, 2] = Some 2 \<and> median [4, 1, 3, 2] = Some 2.5 \<and> median [] = None"
  using mean_median_sentinel [of "[Fin 3, Fin 1, Fin 2]" "[3, 1, 2]"]
    mean_median_sentinel [of "[]" "[4, 1, 3, 2]"]
    mean_median_sentinel [of "[]" "[]"]
  by simp

subsection \<open>Income brackets\<close>

lemma floor_quarter: "nat \<lfloor>real n * 0.25\<rfloor> = n div 4"
proof -
  have "real n * 0.25 = real n / real 4" by simp
  then have "\<lfloor>real n * 0.25\<rfloor> = \<lfloor>real n / real 4\<rfloor>" by simp
  also have "\<dots> = int (n div 4)" by (rule floor_divide_of_nat_eq)
  finally show ?thesis by simp
qed

lemma floor_three_quarters: "nat \<lfloor>real n * 0.75\<rfloor> = (3 * n) div 4"
proof -
  have "real n * 0.75 = real (3 * n) / real 4" by simp
  then have "\<lfloor>real n * 0.75\<rfloor> = \<lfloor>real (3 * n) / real 4\<rfloor>" by presburger
  also have "\<dots> = int ((3 * n) div 4)" by (rule floor_divide_of_nat_eq)
  finally show ?thesis by simp
qed

lemma quartile_index_in_range:
  assumes "0 < n"
  shows "quartile_index n 0.25 < n" and "quartile_index n 0.75 < n"
proof -
  show "quartile_index n 0.25 < n"
    unfolding quartile_index_def floor_quarter using assms by simp
  show "quartile_index n 0.75 < n"
    unfolding quartile_index_def floor_three_quarters using assms by arith
qed

lemma quartiles_defined:
  assumes "records \<noteq> []"
  defines "incomes \<equiv> sort (map AMT_INCOME_TOTAL records)"
  shows "js_index incomes (nat \<lfloor>real (length incomes) * 0.25\<rfloor>)
           = Some (incomes ! quartile_index (length records) 0.25)"
    and "js_index incomes (nat \<lfloor>real (length incomes) * 0.75\<rfloor>)
           = Some (incomes ! quartile_index (length records) 0.75)"
proof -
  from assms(1) have n: "0 < length records" by simp
  have len: "length incomes = length records" by (simp add: incomes_def)
  show "js_index incomes (nat \<lfloor>real (length incomes) * 0.25\<rfloor>)
           = Some (incomes ! quartile_index (length records) 0.25)"
    using quartile_index_in_range(1) [OF n]
    unfolding js_index_def len quartile_index_def by simp
  show "js_index incomes (nat \<lfloor>real (length incomes) * 0.75\<rfloor>)
           = Some (incomes ! quartile_index (length records) 0.75)"
    using quartile_index_in_range(2) [OF n]
    unfolding js_index_def len quartile_index_def by simp
qed

lemma addIncomeBrackets_eq_spec: "addIncomeBrackets records = bracket_spec records"
proof (cases "records = []")
  case True
  then show ?thesis by (simp add: addIncomeBrackets_def bracket_spec_def)
next
  case False
  show ?thesis
    unfolding addIncomeBrackets_def bracket_spec_def Let_def quartiles_defined [OF False]
    by (simp add: le_undef_def ge_undef_def bracket_label_def)
qed

text \<open>
  C5. Income bracketing works on the whole supplied collection: the incomes are sorted
  ascending, Q1 and Q3 are read from the sorted list at the indices \<open>floor (n * 0.25)\<close>
  and \<open>floor (n * 0.75)\<close> (that is \<open>n div 4\<close> and \<open>3 * n div 4\<close>, both in range for
  a non-empty collection), and each record is labelled Low when its income is at most
  Q1, High when it is at least Q3, and Mid otherwise.
\<close>

theorem addIncomeBrackets_quartiles:
  "addIncomeBrackets records = bracket_spec records
   \<and> length (addIncomeBrackets records) = length records
   \<and> sorted (sort (map AMT_INCOME_TOTAL records))
   \<and> mset (sort (map AMT_INCOME_TOTAL records)) = mset (map AMT_INCOME_TOTAL records)
   \<and> quartile_index (length records) 0.25 = length records div 4
   \<and> quartile_index (length records) 0.75 = (3 * length records) div 4
   \<and> (records \<noteq> [] \<longrightarrow> quartile_index (length records) 0.25 < length records
                        \<and> quartile_index (length records) 0.75 < length records)
   \<and> (\<forall>i < length records.
        INCOME_BRACKET (addIncomeBrackets records ! i) =
          Some (let q1 = sort (map AMT_INCOME_TOTAL records) ! (length records div 4);
                    q3 = sort (map AMT_INCOME_TOTAL records) ! ((3 * length records) div 4);
                    income = AMT_INCOME_TOTAL (records ! i)
                in if income \<le> q1 then Low else if income \<ge> q3 then High else Mid))"
proof -
  have len: "length (addIncomeBrackets records) = length records"
    by (simp add: addIncomeBrackets_def Let_def)
  have q1: "quartile_index (length records) 0.25 = length records div 4"
    unfolding quartile_index_def by (rule floor_quarter)
  have q3: "quartile_index (length records) 0.75 = (3 * length records) div 4"
    unfolding quartile_index_def by (rule floor_three_quarters)
  have range: "records \<noteq> [] \<longrightarrow> quartile_index (length records) 0.25 < length records
                        \<and> quartile_index (length records) 0.75 < length records"
    using quartile_index_in_range [of "length records"] by simp
  have labels: "\<forall>i < length records.
        INCOME_BRACKET (addIncomeBrackets records ! i) =
          Some (let q1 = sort (map AMT_INCOME_TOTAL records) ! (length records div 4);
                    q3 = sort (map AMT_INCOME_TOTAL records) ! ((3 * length records) div 4);
                    income = AMT_INCOME_TOTAL (records ! i)
                in if income \<le> q1 then Low else if income \<ge> q3 then High else Mid)"
    unfolding addIncomeBrackets_eq_spec bracket_spec_def Let_def q1 q3
    by (simp add: bracket_label_def)
  from addIncomeBrackets_eq_spec len q1 q3 range labels show ?thesis
    by simp
qed

theorem addIncomeBrackets_quartiles_witness:
  "INCOME_BRACKET (addIncomeBrackets [sample_record 40, sample_record 10, sample_record 30,
                         sample_record 20, sample_record 50] ! 0) = Some High
   \<and> INCOME_BRACKET (addIncomeBrackets [sample_record 40, sample_record 10, sample_record 30,
                         sample_record 20, sample_record 50] ! 1) = Some Low
   \<and> INCOME_BRACKET (addIncomeBrackets [sample_record 40, sample_record 10, sample_record 30,
                         sample_record 20, sample_record 50] ! 2) = Some Mid"
proof -
  let ?rs = "[sample_record 40, sample_record 10, sample_record 30,
              sample_record 20, sample_record 50]"
  let ?label = "\<lambda>i. Some (let q1 = sort (map AMT_INCOME_TOTAL ?rs) ! (length ?rs div 4);
                    q3 = sort (map AMT_INCOME_TOTAL ?rs) ! ((3 * length ?rs) div 4);
                    income = AMT_INCOME_TOTAL (?rs ! i)
                in if income \<le> q1 then Low else if income \<ge> q3 then High else Mid)"
  have nonempty: "?rs \<noteq> []" by simp
  have all: "\<forall>i < length ?rs. INCOME_BRACKET (addIncomeBrackets ?rs ! i) = ?label i"
    using addIncomeBrackets_quartiles [of ?rs] by blast
  have "INCOME_BRACKET (addIncomeBrackets ?rs ! 0) = ?label 0"
    using all by simp
  moreover have "INCOME_BRACKET (addIncomeBrackets ?rs ! 1) = ?label 1"
    using all by simp
  moreover have "INCOME_BRACKET (addIncomeBrackets ?rs ! 2) = ?label 2"
    using all by simp
  moreover have "?label 0 = Some High" "?label 1 = Some Low" "?label 2 = Some Mid"
    by (simp_all add: sample_record_def)
  ultimately show ?thesis by simp
qed

subsection \<open>Filtering\<close>

text \<open>
  C4. For every record collection and every unconstrained filter specification (the four
  category lists empty, the income bracket \<open>all\<close>, the age and employment ranges
  covering every value present in the records) \<open>applyFilters\<close> returns the input
  sequence unchanged.
\<close>

theorem applyFilters_unconstrained_identity:
  assumes "gender filters = []" and "education filters = []"
    and "familyStatus filters = []" and "housingType filters = []"
    and "incomeBracket filters = ''all''"
    and "\<forall>r \<in> set data. \<forall>a. AGE_YEARS r = Some a \<longrightarrow>
           fst (ageRange filters) \<le> a \<and> a \<le> snd (ageRange filters)"
    and "\<forall>r \<in> set data. \<forall>e. EMPLOYMENT_YEARS r = Some e \<longrightarrow>
           fst (employmentRange filters) \<le> e \<and> e \<le> snd (employmentRange filters)"
  shows "applyFilters data filters = data"
proof -
  have "filter_callback filters r" if "r \<in> set data" for r
  proof -
    have "\<not> age_rejects filters r"
      using assms(6) that by (auto simp: age_rejects_def split: option.splits)
    moreover have "\<not> employment_rejects filters r"
      using assms(7) that by (auto simp: employment_rejects_def split: option.splits)
    ultimately show ?thesis
      using assms(1-5)
      by (simp add: filter_callback_def gender_rejects_def education_rejects_def
          familyStatus_rejects_def housingType_rejects_def incomeBracket_rejects_def)
  qed
  then show ?thesis
    by (simp add: applyFilters_def)
qed

theorem applyFilters_unconstrained_identity_witness:
  "applyFilters (preprocessData [sample_record 10, sample_record 20]) initialFilters
     = preprocessData [sample_record 10, sample_record 20]"
proof -
  let ?data = "preprocessData [sample_record 10, sample_record 20]"
  have ages: "\<forall>r \<in> set ?data. AGE_YEARS r = Some 40"
    by (simp add: preprocessData_def preprocessRecord_def sample_record_def
        math_round_def)
  have emps: "\<forall>r \<in> set ?data. EMPLOYMENT_YEARS r = Some 4"
    by (simp add: preprocessData_def preprocessRecord_def sample_record_def
        math_round_def)
  show ?thesis
  proof (rule applyFilters_unconstrained_identity)
    show "\<forall>r \<in> set ?data. \<forall>a. AGE_YEARS r = Some a \<longrightarrow>
           fst (ageRange initialFilters) \<le> a \<and> a \<le> snd (ageRange initialFilters)"
      using ages by (simp add: initialFilters_def)
    show "\<forall>r \<in> set ?data. \<forall>e. EMPLOYMENT_YEARS r = Some e \<longrightarrow>
           fst (employmentRange initialFilters) \<le> e \<and> e \<le> snd (employmentRange initialFilters)"
      using emps by (simp add: initialFilters_def)
  qed (simp_all add: initialFilters_def)
qed

text \<open>
  C9. A record without a derived age is not rejected by the age-range condition,
  whatever the range; a record whose employment years are zero or absent is not
  rejected by the employment-range condition, whatever the range. For a collection of
  such records the result of \<open>applyFilters\<close> does not depend on the two ranges.
\<close>

theorem missing_values_pass_range_filters:
  "(AGE_YEARS r = None \<longrightarrow> \<not> age_rejects filters r)
   \<and> (EMPLOYMENT_YEARS r = None \<or> EMPLOYMENT_YEARS r = Some 0
        \<longrightarrow> \<not> employment_rejects filters r)
   \<and> ((\<forall>r \<in> set data. AGE_YEARS r = None
           \<and> (EMPLOYMENT_YEARS r = None \<or> EMPLOYMENT_YEARS r = Some 0))
        \<longrightarrow> applyFilters data (filters \<lparr> ageRange := ages, employmentRange := emps \<rparr>)
              = applyFilters data filters)"
proof -
  have age: "AGE_YEARS r = None \<longrightarrow> \<not> age_rejects f r" for f r
    by (simp add: age_rejects_def)
  have emp: "EMPLOYMENT_YEARS r = None \<or> EMPLOYMENT_YEARS r = Some 0
        \<longrightarrow> \<not> employment_rejects f r" for f r
    by (auto simp: employment_rejects_def)
  have same: "filter_callback (filters \<lparr> ageRange := ages, employmentRange := emps \<rparr>) r
                = filter_callback filters r"
    if "AGE_YEARS r = None"
      and "EMPLOYMENT_YEARS r = None \<or> EMPLOYMENT_YEARS r = Some 0" for r
    using that age [of r] emp [of r]
    by (simp add: filter_callback_def gender_rejects_def education_rejects_def
          familyStatus_rejects_def housingType_rejects_def incomeBracket_rejects_def)
  have "(\<forall>r \<in> set data. AGE_YEARS r = None
           \<and> (EMPLOYMENT_YEARS r = None \<or> EMPLOYMENT_YEARS r = Some 0))
        \<longrightarrow> applyFilters data (filters \<lparr> ageRange := ages, employmentRange := emps \<rparr>)
              = applyFilters data filters"
    unfolding applyFilters_def using same by (auto intro: filter_cong)
  with age [of r filters] emp [of r filters] show ?thesis
    by blast
qed

theorem missing_values_pass_range_filters_witness:
  "\<not> age_rejects (initialFilters \<lparr> ageRange := (90, 95) \<rparr>) (sample_record 10)
   \<and> \<not> employment_rejects (initialFilters \<lparr> employmentRange := (30, 40) \<rparr>)
         ((sample_record 10) \<lparr> EMPLOYMENT_YEARS := Some 0 \<rparr>)
   \<and> applyFilters [sample_record 10, (sample_record 20) \<lparr> EMPLOYMENT_YEARS := Some 0 \<rparr>]
         (initialFilters \<lparr> ageRange := (90, 95), employmentRange := (30, 40) \<rparr>)
       = [sample_record 10, (sample_record 20) \<lparr> EMPLOYMENT_YEARS := Some 0 \<rparr>]"
proof -
  let ?data = "[sample_record 10, (sample_record 20) \<lparr> EMPLOYMENT_YEARS := Some 0 \<rparr>]"
  have missing: "\<forall>r \<in> set ?data. AGE_YEARS r = None
           \<and> (EMPLOYMENT_YEARS r = None \<or> EMPLOYMENT_YEARS r = Some 0)"
    by (simp add: sample_record_def)
  have "applyFilters ?data (initialFilters \<lparr> ageRange := (90, 95), employmentRange := (30, 40) \<rparr>)
          = applyFilters ?data initialFilters"
    using missing
      missing_values_pass_range_filters [where r = "sample_record 10"
        and filters = initialFilters and data = ?data and ages = "(90, 95)"
        and emps = "(30, 40)"]
    by blast
  moreover have "applyFilters ?data initialFilters = ?data"
    by (simp add: applyFilters_def filter_callback_def gender_rejects_def
        education_rejects_def familyStatus_rejects_def housingType_rejects_def
        incomeBracket_rejects_def age_rejects_def employment_rejects_def
        initialFilters_def sample_record_def)
  moreover have "\<not> age_rejects (initialFilters \<lparr> ageRange := (90, 95) \<rparr>) (sample_record 10)"
    using missing_values_pass_range_filters
      [where r = "sample_record 10" and data = "[]"
        and filters = "initialFilters \<lparr> ageRange := (90, 95) \<rparr>"]
    by (simp add: sample_record_def)
  moreover have "\<not> employment_rejects (initialFilters \<lparr> employmentRange := (30, 40) \<rparr>)
         ((sample_record 10) \<lparr> EMPLOYMENT_YEARS := Some 0 \<rparr>)"
    using missing_values_pass_range_filters
      [where r = "(sample_record 10) \<lparr> EMPLOYMENT_YEARS := Some 0 \<rparr>" and data = "[]"
        and filters = "initialFilters \<lparr> employmentRange := (30, 40) \<rparr>"]
    by simp
  ultimately show ?thesis by simp
qed

subsection \<open>Raw fields are preserved\<close>

lemma preprocessRecord_shape:
  "\<exists>a e d l c. preprocessRecord r =
     r \<lparr> AGE_YEARS := Some a, EMPLOYMENT_YEARS := Some e, DTI := Some d,
         LOAN_TO_INCOME := Some l, ANNUITY_TO_CREDIT := Some c \<rparr>"
  unfolding preprocessRecord_def Let_def by (intro exI) (rule refl)

lemma addIncomeBrackets_shape:
  "\<exists>label. addIncomeBrackets records =
     map (\<lambda>r. r \<lparr> INCOME_BRACKET := Some (label r) \<rparr>) records"
  unfolding addIncomeBrackets_def Let_def by (intro exI) (rule refl)

lemma derivation_shape:
  "\<exists>derived. addIncomeBrackets (preprocessData records) = map derived records
     \<and> (\<forall>r. \<exists>a e d l c b. derived r =
           r \<lparr> AGE_YEARS := Some a, EMPLOYMENT_YEARS := Some e, DTI := Some d,
               LOAN_TO_INCOME := Some l, ANNUITY_TO_CREDIT := Some c,
               INCOME_BRACKET := Some b \<rparr>)"
proof -
  obtain label where
    "addIncomeBrackets (preprocessData records) =
       map (\<lambda>r. r \<lparr> INCOME_BRACKET := Some (label r) \<rparr>) (preprocessData records)"
    using addIncomeBrackets_shape by blast
  then have "addIncomeBrackets (preprocessData records) =
       map (\<lambda>r. (preprocessRecord r)
                   \<lparr> INCOME_BRACKET := Some (label (preprocessRecord r)) \<rparr>) records"
    by (simp add: preprocessData_def o_def)
  moreover have "\<exists>a e d l c b.
      (preprocessRecord r) \<lparr> INCOME_BRACKET := Some (label (preprocessRecord r)) \<rparr> =
        r \<lparr> AGE_YEARS := Some a, EMPLOYMENT_YEARS := Some e, DTI := Some d,
            LOAN_TO_INCOME := Some l, ANNUITY_TO_CREDIT := Some c,
            INCOME_BRACKET := Some b \<rparr>" for r
    using preprocessRecord_shape [of r] by metis
  ultimately show ?thesis by blast
qed

text \<open>
  C10. The derivation passes \<open>preprocessData\<close> and \<open>addIncomeBrackets\<close> keep the length
  and order of the collection and leave every raw field of every record unchanged; they
  only set the six derived fields, all of which are present afterwards.
\<close>

theorem derivation_keeps_raw_fields:
  "length (addIncomeBrackets (preprocessData records)) = length records
   \<and> map SK_ID_CURR (addIncomeBrackets (preprocessData records)) = map SK_ID_CURR records
   \<and> map TARGET (addIncomeBrackets (preprocessData records)) = map TARGET records
   \<and> map CODE_GENDER (addIncomeBrackets (preprocessData records)) = map CODE_GENDER records
   \<and> map DAYS_BIRTH (addIncomeBrackets (preprocessData records)) = map DAYS_BIRTH records
   \<and> map DAYS_EMPLOYED (addIncomeBrackets (preprocessData records))
       = map DAYS_EMPLOYED records
   \<and> map NAME_FAMILY_STATUS (addIncomeBrackets (preprocessData records))
       = map NAME_FAMILY_STATUS records
   \<and> map CNT_CHILDREN (addIncomeBrackets (preprocessData records)) = map CNT_CHILDREN records
   \<and> map CNT_FAM_MEMBERS (addIncomeBrackets (preprocessData records))
       = map CNT_FAM_MEMBERS records
   \<and> map NAME_EDUCATION_TYPE (addIncomeBrackets (preprocessData records))
       = map NAME_EDUCATION_TYPE records
   \<and> map OCCUPATION_TYPE (addIncomeBrackets (preprocessData records))
       = map OCCUPATION_TYPE records
   \<and> map NAME_HOUSING_TYPE (addIncomeBrackets (preprocessData records))
       = map NAME_HOUSING_TYPE records
   \<and> map AMT_INCOME_TOTAL (addIncomeBrackets (preprocessData records))
       = map AMT_INCOME_TOTAL records
   \<and> map AMT_CREDIT (addIncomeBrackets (preprocessData records)) = map AMT_CREDIT records
   \<and> map AMT_ANNUITY (addIncomeBrackets (preprocessData records)) = map AMT_ANNUITY records
   \<and> map AMT_GOODS_PRICE (addIncomeBrackets (preprocessData records))
       = map AMT_GOODS_PRICE records
   \<and> map NAME_CONTRACT_TYPE (addIncomeBrackets (preprocessData records))
       = map NAME_CONTRACT_TYPE records
   \<and> map REGION_RATING_CLIENT (addIncomeBrackets (preprocessData records))
       = map REGION_RATING_CLIENT records
   \<and> map FLAG_OWN_CAR (addIncomeBrackets (preprocessData records)) = map FLAG_OWN_CAR records
   \<and> map FLAG_OWN_REALTY (addIncomeBrackets (preprocessData records))
       = map FLAG_OWN_REALTY records
   \<and> list_all (\<lambda>r. AGE_YEARS r \<noteq> None \<and> EMPLOYMENT_YEARS r \<noteq> None \<and> DTI r \<noteq> None
                    \<and> LOAN_TO_INCOME r \<noteq> None \<and> ANNUITY_TO_CREDIT r \<noteq> None
                    \<and> INCOME_BRACKET r \<noteq> None)
        (addIncomeBrackets (preprocessData records))"
proof -
  obtain derived where out: "addIncomeBrackets (preprocessData records) = map derived records"
    and upd: "\<And>r. \<exists>a e d l c b. derived r =
           r \<lparr> AGE_YEARS := Some a, EMPLOYMENT_YEARS := Some e, DTI := Some d,
               LOAN_TO_INCOME := Some l, ANNUITY_TO_CREDIT := Some c,
               INCOME_BRACKET := Some b \<rparr>"
    using derivation_shape by blast
  have raw: "SK_ID_CURR (derived r) = SK_ID_CURR r" "TARGET (derived r) = TARGET r"
    "CODE_GENDER (derived r) = CODE_GENDER r" "DAYS_BIRTH (derived r) = DAYS_BIRTH r"
    "DAYS_EMPLOYED (derived r) = DAYS_EMPLOYED r"
    "NAME_FAMILY_STATUS (derived r) = NAME_FAMILY_STATUS r"
    "CNT_CHILDREN (derived r) = CNT_CHILDREN r"
    "CNT_FAM_MEMBERS (derived r) = CNT_FAM_MEMBERS r"
    "NAME_EDUCATION_TYPE (derived r) = NAME_EDUCATION_TYPE r"
    "OCCUPATION_TYPE (derived r) = OCCUPATION_TYPE r"
    "NAME_HOUSING_TYPE (derived r) = NAME_HOUSING_TYPE r"
    "AMT_INCOME_TOTAL (derived r) = AMT_INCOME_TOTAL r"
    "AMT_CREDIT (derived r) = AMT_CREDIT r" "AMT_ANNUITY (derived r) = AMT_ANNUITY r"
    "AMT_GOODS_PRICE (derived r) = AMT_GOODS_PRICE r"
    "NAME_CONTRACT_TYPE (derived r) = NAME_CONTRACT_TYPE r"
    "REGION_RATING_CLIENT (derived r) = REGION_RATING_CLIENT r"
    "FLAG_OWN_CAR (derived r) = FLAG_OWN_CAR r"
    "FLAG_OWN_REALTY (derived r) = FLAG_OWN_REALTY r" for r
    using upd [of r] by auto
  have populated: "AGE_YEARS (derived r) \<noteq> None \<and> EMPLOYMENT_YEARS (derived r) \<noteq> None
      \<and> DTI (derived r) \<noteq> None \<and> LOAN_TO_INCOME (derived r) \<noteq> None
      \<and> ANNUITY_TO_CREDIT (derived r) \<noteq> None \<and> INCOME_BRACKET (derived r) \<noteq> None" for r
    using upd [of r] by auto
  show ?thesis
    unfolding out using populated by (simp add: raw list_all_iff del: not_None_eq)
qed

theorem derivation_keeps_raw_fields_witness:
  "map AMT_INCOME_TOTAL (addIncomeBrackets (preprocessData [sample_record 10, sample_record 20]))
     = [10, 20]
   \<and> map AGE_YEARS (addIncomeBrackets (preprocessData [sample_record 10, sample_record 20]))
     = [Some 40, Some 40]
   \<and> map INCOME_BRACKET (addIncomeBrackets (preprocessData [sample_record 10, sample_record 20]))
     = [Some Low, Some High]"
proof -
  have "map AMT_INCOME_TOTAL (addIncomeBrackets (preprocessData [sample_record 10, sample_record 20]))
     = [10, 20]"
    using derivation_keeps_raw_fields [of "[sample_record 10, sample_record 20]"]
    by (simp add: sample_record_def)
  moreover have "map AGE_YEARS (addIncomeBrackets (preprocessData [sample_record 10, sample_record 20]))
     = [Some 40, Some 40]"
    by (simp add: addIncomeBrackets_def preprocessData_def preprocessRecord_def
        sample_record_def Let_def math_round_def)
  moreover have "map INCOME_BRACKET (addIncomeBrackets (preprocessData [sample_record 10, sample_record 20]))
     = [Some Low, Some High]"
    by (simp add: addIncomeBrackets_def preprocessData_def preprocessRecord_def
        sample_record_def Let_def js_index_def le_undef_def ge_undef_def)
  ultimately show ?thesis by simp
qed

subsection \<open>KPIs of the empty collection\<close>

text \<open>
  C1 (as stated, refuted). On the empty collection \<open>calculateKPIs\<close> returns the empty
  object: the metric \<open>totalApplicants\<close> is absent from it.
\<close>

theorem calculateKPIs_empty_counterexample:
  "map_of (calculateKPIs []) ''totalApplicants'' = None"
  by (simp add: calculateKPIs_def)

text \<open>
  C1 (amended). On the empty collection \<open>calculateKPIs\<close> returns, without throwing, the
  empty object, in which no metric is present; on a non-empty collection it returns
  every named metric, in the order of the object literal.
\<close>

theorem calculateKPIs_empty_or_complete:
  "calculateKPIs [] = []
   \<and> (data \<noteq> [] \<longrightarrow> map fst (calculateKPIs data) = kpi_names)"
  by (simp add: calculateKPIs_def Let_def kpi_names_def)

theorem calculateKPIs_empty_or_complete_witness:
  "map fst (calculateKPIs [sample_record 10]) = kpi_names"
  using calculateKPIs_empty_or_complete [of "[sample_record 10]"] by simp



subsection \<open>Histogram bins\<close>

lemma foldl_n_min_Fin: "foldl n_min (Fin a) (map Fin xs) = Fin (foldl min a xs)"
  by (induction xs arbitrary: a) (auto simp: n_min_def min_def)

lemma foldl_n_max_Fin: "foldl n_max (Fin a) (map Fin xs) = Fin (foldl max a xs)"
  by (induction xs arbitrary: a) (auto simp: n_max_def max_def)

lemma math_min_Cons: "math_min (x # xs) = Fin (foldl min x xs)"
  by (simp add: math_min_def n_min_def foldl_n_min_Fin)

lemma math_max_Cons: "math_max (x # xs) = Fin (foldl max x xs)"
  by (simp add: math_max_def n_max_def foldl_n_max_Fin)

lemma foldl_min_lower: "foldl min a xs \<le> a \<and> (\<forall>x \<in> set xs. foldl min a xs \<le> (x::real))"
proof (induction xs arbitrary: a)
  case Nil
  show ?case by simp
next
  case (Cons y ys)
  from Cons [of "min a y"] show ?case by auto
qed

lemma foldl_max_upper: "a \<le> foldl max a xs \<and> (\<forall>x \<in> set xs. (x::real) \<le> foldl max a xs)"
proof (induction xs arbitrary: a)
  case Nil
  show ?case by simp
next
  case (Cons y ys)
  from Cons [of "max a y"] show ?case by auto
qed

lemma foldl_min_const: "\<forall>x \<in> set xs. x = c \<Longrightarrow> foldl min c xs = (c::real)"
  by (induction xs) auto

lemma foldl_max_const: "\<forall>x \<in> set xs. x = c \<Longrightarrow> foldl max c xs = (c::real)"
  by (induction xs) auto

text \<open>
  Whenever all values are identical (in particular for a single value) the first
  increment throws, whatever the number of bins.
\<close>

lemma createBins_degenerate_throws:
  assumes "vals \<noteq> []" and "\<forall>v \<in> set vals. v = c"
  shows "createBins vals numBins = Inl TypeError"
proof -
  from assms obtain rest where vals: "vals = c # rest" and rest: "\<forall>v \<in> set rest. v = c"
    by (cases vals) auto
  have mn: "math_min vals = Fin c"
    unfolding vals math_min_Cons using foldl_min_const [OF rest] by simp
  have mx: "math_max vals = Fin c"
    unfolding vals math_max_Cons using foldl_max_const [OF rest] by simp
  define binSize where "binSize = n_div (n_sub (Fin c) (Fin c)) (Fin (real numBins))"
  have bs: "binSize = Fin 0 \<or> binSize = NaN"
    by (simp add: binSize_def n_sub_def)
  then have idx: "n_min (n_floor (n_div (n_sub (Fin c) (Fin c)) binSize)) b = NaN" for b
    by (auto simp: n_sub_def n_min_def)
  show ?thesis
    unfolding createBins_def Let_def mn mx
    unfolding binSize_def [symmetric] vals
    by (simp add: idx array_slot_def)
qed

lemma sum_count_update:
  assumes "k < length bins"
  shows "sum_list (map count_bin (bins [k := (bins ! k) \<lparr> count_bin := count_bin (bins ! k) + 1 \<rparr>]))
           = sum_list (map count_bin bins) + 1"
proof -
  have "map count_bin (bins [k := (bins ! k) \<lparr> count_bin := count_bin (bins ! k) + 1 \<rparr>])
          = (map count_bin bins) [k := count_bin (bins ! k) + 1]"
    by (simp add: map_update)
  moreover have "sum_list ((map count_bin bins) [k := count_bin (bins ! k) + 1])
          = sum_list (map count_bin bins) + (count_bin (bins ! k) + 1) - (map count_bin bins) ! k"
    using assms by (simp add: sum_list_update)
  ultimately show ?thesis using assms by simp
qed

lemma bin_index_in_range:
  assumes "0 < bs" and "0 < numBins" and "m \<le> v"
  shows "\<exists>k < numBins.
           array_slot (n_min (n_floor (n_div (n_sub (Fin v) (Fin m)) (Fin bs)))
                             (Fin (real numBins - 1))) numBins = Some k"
proof -
  define q where "q = \<lfloor>(v - m) / bs\<rfloor>"
  have q0: "0 \<le> q" using assms by (simp add: q_def)
  define k where "k = min q (int numBins - 1)"
  have k0: "0 \<le> k" and kn: "k < int numBins" using q0 assms(2) by (auto simp: k_def)
  have "n_min (n_floor (n_div (n_sub (Fin v) (Fin m)) (Fin bs))) (Fin (real numBins - 1))
          = Fin (of_int k)"
    using assms(1) by (auto simp: n_sub_def n_min_def math_floor_def q_def k_def min_def)
  then have "array_slot (n_min (n_floor (n_div (n_sub (Fin v) (Fin m)) (Fin bs)))
                             (Fin (real numBins - 1))) numBins = Some (nat k)"
    using k0 kn by (simp add: array_slot_def)
  moreover have "nat k < numBins" using k0 kn by simp
  ultimately show ?thesis by blast
qed

lemma count_values_total:
  assumes "0 < bs" and "0 < numBins" and "\<forall>v \<in> set vals. m \<le> v"
    and "length bins = numBins"
  shows "\<exists>bins'. count_values (Fin m) (Fin bs) numBins vals bins = Inr bins'
           \<and> length bins' = numBins
           \<and> sum_list (map count_bin bins') = sum_list (map count_bin bins) + length vals"
  using assms(3,4)
proof (induction vals arbitrary: bins)
  case Nil
  then show ?case by simp
next
  case (Cons v rest)
  from Cons.prems have "m \<le> v" by simp
  from bin_index_in_range [OF assms(1,2) this] obtain k where k: "k < numBins"
    and slot: "array_slot (n_min (n_floor (n_div (n_sub (Fin v) (Fin m)) (Fin bs)))
                             (Fin (real numBins - 1))) numBins = Some k"
    by blast
  let ?bins = "bins [k := (bins ! k) \<lparr> count_bin := count_bin (bins ! k) + 1 \<rparr>]"
  have len: "length ?bins = numBins" using Cons.prems by simp
  from Cons.prems have "\<forall>v \<in> set rest. m \<le> v" by simp
  from Cons.IH [OF this len] obtain bins' where
    run: "count_values (Fin m) (Fin bs) numBins rest ?bins = Inr bins'"
    and len': "length bins' = numBins"
    and total: "sum_list (map count_bin bins') = sum_list (map count_bin ?bins) + length rest"
    by blast
  have "count_values (Fin m) (Fin bs) numBins (v # rest) bins = Inr bins'"
    using slot run Cons.prems(2) by simp
  moreover have "sum_list (map count_bin bins') = sum_list (map count_bin bins) + length (v # rest)"
    using total sum_count_update [of k bins] k Cons.prems(2) by simp
  ultimately show ?case using len' by blast
qed

text \<open>
  When the values are not all identical the binning succeeds for every positive number
  of bins, and the counts of the bins add up to the number of values.
\<close>

lemma createBins_counts_all:
  assumes "0 < numBins" and "v \<in> set vals" and "w \<in> set vals" and "v < w"
  shows "\<exists>bins. createBins vals numBins = Inr bins \<and> length bins = numBins
           \<and> sum_list (map count_bin bins) = length vals"
proof -
  from assms(2) obtain x rest where vals: "vals = x # rest" by (cases vals) auto
  define m where "m = foldl min x rest"
  define M where "M = foldl max x rest"
  have lower: "\<forall>u \<in> set vals. m \<le> u"
    using foldl_min_lower [of x rest] by (auto simp: vals m_def)
  have upper: "\<forall>u \<in> set vals. u \<le> M"
    using foldl_max_upper [of x rest] by (auto simp: vals M_def)
  from lower upper assms(2-4) have "m < M" by fastforce
  then have bs: "0 < (M - m) / real numBins" using assms(1) by simp
  have size: "n_div (n_sub (math_max vals) (math_min vals)) (Fin (real numBins))
                = Fin ((M - m) / real numBins)"
    using assms(1) by (simp add: vals math_min_Cons math_max_Cons m_def M_def n_sub_def)
  have mn: "math_min vals = Fin m" by (simp add: vals math_min_Cons m_def)
  define bins0 where "bins0 = map (\<lambda>i.
                   \<lparr> range_bin = (n_round (n_add (Fin m) (n_mul (Fin (real i)) (Fin ((M - m) / real numBins)))),
                                  n_round (n_add (Fin m) (n_mul (Fin (real (i + 1))) (Fin ((M - m) / real numBins))))),
                     count_bin = 0,
                     min_bin = n_add (Fin m) (n_mul (Fin (real i)) (Fin ((M - m) / real numBins))),
                     max_bin = n_add (Fin m) (n_mul (Fin (real (i + 1))) (Fin ((M - m) / real numBins))) \<rparr>)
                   [0 ..< numBins]"
  have len0: "length bins0 = numBins" by (simp add: bins0_def)
  have zero: "sum_list (map count_bin bins0) = 0" by (simp add: bins0_def o_def)
  from count_values_total [OF bs assms(1) lower len0] zero
  show ?thesis
    unfolding createBins_def Let_def size unfolding mn bins0_def [symmetric]
    by simp
qed


text \<open>
  C2 (the failing input). Three identical values and three bins: the bin size is 0, the
  bin index is \<open>NaN\<close>, and the count of an undefined bin is incremented, which throws.
\<close>

theorem createBins_identical_values_throws:
  "createBins [5, 5, 5] 3 = Inl TypeError"
  by (simp add: createBins_def math_min_def math_max_def n_min_def n_max_def n_sub_def
      array_slot_def Let_def)

subsection \<open>Pearson correlation\<close>

lemma binary_exponent_step:
  "0 < n \<Longrightarrow> binary_exponent n x =
     (if 2 \<le> x then 1 + binary_exponent (n - 1) (x / 2)
      else if x < 1 then binary_exponent (n - 1) (x * 2) - 1
      else 0)"
  by (cases n) simp_all

lemmas double_eval = to_double_def binary_exponent_step pow2_def round_half_even_def Let_def
  d_add_def d_sub_def d_mul_def d_div_def d_sqrt_def n_sub_def

lemma n_div_NaN: "n_div v NaN = NaN"
  by (cases v) simp_all

text \<open>The double nearest to 30.1 is slightly above it.\<close>

lemma same_age_pairs:
  "valid_pairs same_age_records F_AGE_YEARS F_AMT_INCOME_TOTAL =
     [(Fin (4236198399495373 / 140737488355328), Fin 100000), (Fin (4236198399495373 / 140737488355328), Fin 200000), (Fin (4236198399495373 / 140737488355328), Fin 300000)]"
  by (simp add: valid_pairs_def same_age_records_def sample_record_def double_eval
      del: binary_exponent.simps not_None_eq)


text \<open>Every rounded operation of the five sums and of the two variances.\<close>

lemma same_age_steps:
  "d_add (Fin 0) (Fin (4236198399495373 / 140737488355328)) = Fin (4236198399495373 / 140737488355328)"
  "d_add (Fin 0) (Fin 100000) = Fin 100000"
  "d_mul (Fin (4236198399495373 / 140737488355328)) (Fin (4236198399495373 / 140737488355328)) = Fin (7969348239050671 / 8796093022208)"
  "d_add (Fin 0) (Fin (7969348239050671 / 8796093022208)) = Fin (7969348239050671 / 8796093022208)"
  "d_mul (Fin 100000) (Fin 100000) = Fin 10000000000"
  "d_add (Fin 0) (Fin 10000000000) = Fin 10000000000"
  "d_add (Fin (4236198399495373 / 140737488355328)) (Fin (4236198399495373 / 140737488355328)) = Fin (4236198399495373 / 70368744177664)"
  "d_add (Fin 100000) (Fin 200000) = Fin 300000"
  "d_add (Fin (7969348239050671 / 8796093022208)) (Fin (7969348239050671 / 8796093022208)) = Fin (7969348239050671 / 4398046511104)"
  "d_mul (Fin 200000) (Fin 200000) = Fin 40000000000"
  "d_add (Fin 10000000000) (Fin 40000000000) = Fin 50000000000"
  "d_add (Fin (4236198399495373 / 70368744177664)) (Fin (4236198399495373 / 140737488355328)) = Fin (1588574399810765 / 17592186044416)"
  "d_add (Fin 300000) (Fin 300000) = Fin 600000"
  "d_add (Fin (7969348239050671 / 4398046511104)) (Fin (7969348239050671 / 8796093022208)) = Fin (5977011179288003 / 2199023255552)"
  "d_mul (Fin 300000) (Fin 300000) = Fin 90000000000"
  "d_add (Fin 50000000000) (Fin 90000000000) = Fin 140000000000"
  "d_mul (Fin 3) (Fin (5977011179288003 / 2199023255552)) = Fin (2241379192233001 / 274877906944)"
  "d_mul (Fin (1588574399810765 / 17592186044416)) (Fin (1588574399810765 / 17592186044416)) = Fin (4482758384466003 / 549755813888)"
  "d_sub (Fin (2241379192233001 / 274877906944)) (Fin (4482758384466003 / 549755813888)) = Fin (- (1 / 549755813888))"
  "d_mul (Fin 3) (Fin 140000000000) = Fin 420000000000"
  "d_mul (Fin 600000) (Fin 600000) = Fin 360000000000"
  "d_sub (Fin 420000000000) (Fin 360000000000) = Fin 60000000000"
  "d_mul (Fin (- (1 / 549755813888))) (Fin 60000000000) = Fin (- (29296875 / 268435456))"
  by (simp_all add: double_eval del: binary_exponent.simps)

text \<open>
  The rounded sum of the three ages is above three times the age, and the rounded
  \<open>n * sumXX - sumX * sumX\<close> is \<open>- 2^(-39)\<close>, not 0.
\<close>

lemma same_age_variances:
  "foldl (\<lambda>sum (x, y). d_add sum x) (Fin 0) [(Fin (4236198399495373 / 140737488355328), Fin 100000), (Fin (4236198399495373 / 140737488355328), Fin 200000), (Fin (4236198399495373 / 140737488355328), Fin 300000)] = Fin (1588574399810765 / 17592186044416)"
  "foldl (\<lambda>sum (x, y). d_add sum (d_mul x x)) (Fin 0) [(Fin (4236198399495373 / 140737488355328), Fin 100000), (Fin (4236198399495373 / 140737488355328), Fin 200000), (Fin (4236198399495373 / 140737488355328), Fin 300000)] = Fin (5977011179288003 / 2199023255552)"
  "foldl (\<lambda>sum (x, y). d_add sum y) (Fin 0) [(Fin (4236198399495373 / 140737488355328), Fin 100000), (Fin (4236198399495373 / 140737488355328), Fin 200000), (Fin (4236198399495373 / 140737488355328), Fin 300000)] = Fin 600000"
  "foldl (\<lambda>sum (x, y). d_add sum (d_mul y y)) (Fin 0) [(Fin (4236198399495373 / 140737488355328), Fin 100000), (Fin (4236198399495373 / 140737488355328), Fin 200000), (Fin (4236198399495373 / 140737488355328), Fin 300000)] = Fin 140000000000"
  "d_sub (d_mul (Fin 3) (Fin (5977011179288003 / 2199023255552))) (d_mul (Fin (1588574399810765 / 17592186044416)) (Fin (1588574399810765 / 17592186044416))) = Fin (- (1 / 549755813888))"
  "d_sub (d_mul (Fin 3) (Fin 140000000000)) (d_mul (Fin 600000) (Fin 600000)) = Fin 60000000000"
  by (simp_all only: foldl.simps prod.case same_age_steps)

lemma same_age_denominator:
  "d_sqrt (d_mul (Fin (- (1 / 549755813888))) (Fin 60000000000)) = NaN"
  by (simp add: same_age_steps d_sqrt_def)

text \<open>
  C8 (the failing input). Three records with the same age 30.1 and three different
  incomes: the age has zero variance, but in doubles \<open>n * sumXX - sumX * sumX\<close> is
  \<open>- 2^(-39)\<close>, the square root of a negative product is \<open>NaN\<close>, the guard
  \<open>denominator === 0\<close> does not hold, and the correlation returned is \<open>NaN\<close>.
\<close>

theorem calculatePearsonCorrelation_constant_column_nan:
  "calculatePearsonCorrelation same_age_records F_AGE_YEARS F_AMT_INCOME_TOTAL = NaN"
  unfolding calculatePearsonCorrelation_def Let_def same_age_pairs
  by (simp add: same_age_steps d_sqrt_def d_div_def n_div_NaN)

text \<open>Fewer than two pairs in which both fields are present give 0.\<close>

lemma calculatePearsonCorrelation_few_pairs:
  "length (valid_pairs data field1 field2) < 2
     \<Longrightarrow> calculatePearsonCorrelation data field1 field2 = Fin 0"
  by (simp add: calculatePearsonCorrelation_def)

text \<open>
  Two records whose second field is twice the first: all operations are exact and the
  correlation is 1.
\<close>

lemma calculatePearsonCorrelation_linear:
  "calculatePearsonCorrelation
     [(sample_record 1) \<lparr> CNT_CHILDREN := 2 \<rparr>, (sample_record 2) \<lparr> CNT_CHILDREN := 4 \<rparr>]
     F_AMT_INCOME_TOTAL F_CNT_CHILDREN = Fin 1"
proof -
  have pairs: "valid_pairs
     [(sample_record 1) \<lparr> CNT_CHILDREN := 2 \<rparr>, (sample_record 2) \<lparr> CNT_CHILDREN := 4 \<rparr>]
     F_AMT_INCOME_TOTAL F_CNT_CHILDREN = [(Fin 1, Fin 2), (Fin 2, Fin 4)]"
    by (simp add: valid_pairs_def sample_record_def double_eval
        del: binary_exponent.simps not_None_eq)
  show ?thesis
    unfolding calculatePearsonCorrelation_def Let_def pairs
    by (simp add: double_eval del: binary_exponent.simps)
qed

text \<open>
  An infinite ratio, as \<open>preprocessData\<close> computes from an income of 0, gives a \<open>NaN\<close>
  denominator as well.
\<close>

lemma calculatePearsonCorrelation_infinite_ratio:
  "calculatePearsonCorrelation
     (preprocessData [sample_record 0, (sample_record 0) \<lparr> TARGET := Target1 \<rparr>])
     F_DTI F_TARGET = NaN"
proof -
  have pairs: "valid_pairs
     (preprocessData [sample_record 0, (sample_record 0) \<lparr> TARGET := Target1 \<rparr>])
     F_DTI F_TARGET = [(PosInf, Fin 0), (PosInf, Fin 1)]"
    by (simp add: valid_pairs_def preprocessData_def preprocessRecord_def sample_record_def
        signed_inf_def double_eval del: binary_exponent.simps not_None_eq)
  show ?thesis
    unfolding calculatePearsonCorrelation_def Let_def pairs
    by (simp add: double_eval signed_inf_def n_div_NaN del: binary_exponent.simps)
qed

subsection \<open>The generator and its draws\<close>

lemma draw_bounds: "0 \<le> Rep_draw d" "Rep_draw d < 1"
  using Rep_draw [of d] by simp_all

lemma randomAge_loop_once:
  "randomAge_loop s =
     (math_round (42 + 12 * (Rep_draw (shd s) + Rep_draw (shd (stl s)) - 1)), stl (stl s))"
proof -
  have "\<not> (42 + 12 * (Rep_draw (shd s) + Rep_draw (shd (stl s)) - 1) < 18
           \<or> 42 + 12 * (Rep_draw (shd s) + Rep_draw (shd (stl s)) - 1) > 80)"
    using draw_bounds [of "shd s"] draw_bounds [of "shd (stl s)"] by simp
  then show ?thesis
    by (subst randomAge_loop.simps) (simp add: math_random_def Let_def)
qed

lemma stake_agree_less:
  assumes "stake k s = stake k t" and "j \<le> k"
  shows "stake j s = stake j t"
proof -
  have "stake j s = take j (stake k s)" using assms(2) by (simp add: take_stake min_def)
  also have "\<dots> = take j (stake k t)" using assms(1) by simp
  also have "\<dots> = stake j t" using assms(2) by (simp add: take_stake min_def)
  finally show ?thesis .
qed

lemma stake_agree_sdrop:
  assumes "stake (j + k) s = stake (j + k) t"
  shows "stake k (sdrop j s) = stake k (sdrop j t)"
proof -
  have "stake k (sdrop j s) = drop j (stake (j + k) s)" by (simp add: drop_stake)
  also have "\<dots> = drop j (stake (j + k) t)" using assms by simp
  also have "\<dots> = stake k (sdrop j t)" by (simp add: drop_stake)
  finally show ?thesis .
qed

lemma reads_mono: "reads k m \<Longrightarrow> k \<le> K \<Longrightarrow> reads K m"
  unfolding reads_def
  by (meson order_trans stake_agree_less)

lemma reads_return: "reads 0 (State_Monad.return a)"
  by (auto simp: reads_def)

lemma reads_math_random: "reads 1 math_random"
proof -
  have "Rep_draw (shd s) = Rep_draw (shd t) \<and>
          (\<exists>j \<le> 1. stl s = sdrop j s \<and> stl t = sdrop j t)"
    if "stake 1 s = stake 1 t" for s t :: rng
  proof -
    from that have "shd s = shd t" by simp
    moreover have "stl s = sdrop 1 s \<and> stl t = sdrop 1 t" by simp
    ultimately show ?thesis by auto
  qed
  then show ?thesis by (simp add: reads_def math_random_def)
qed

lemma reads_bind:
  assumes "reads k m" and "\<And>a. reads j (f a)"
  shows "reads (k + j) (State_Monad.bind m f)"
  unfolding reads_def
proof (intro allI impI)
  fix s t :: rng
  assume agree: "stake (k + j) s = stake (k + j) t"
  then have "stake k s = stake k t" by (rule stake_agree_less) simp
  with assms(1) obtain i where i: "i \<le> k" and res: "fst (run_state m s) = fst (run_state m t)"
    and s': "snd (run_state m s) = sdrop i s" and t': "snd (run_state m t) = sdrop i t"
    unfolding reads_def by blast
  define a where "a = fst (run_state m s)"
  have ms: "run_state m s = (a, sdrop i s)" by (simp add: a_def s' [symmetric])
  have mt: "run_state m t = (a, sdrop i t)" by (simp add: a_def res t' [symmetric])
  have "stake (i + j) s = stake (i + j) t"
    using stake_agree_less [OF agree, of "i + j"] i by simp
  then have "stake j (sdrop i s) = stake j (sdrop i t)" by (rule stake_agree_sdrop)
  with assms(2) [of a] obtain l where l: "l \<le> j"
    and res2: "fst (run_state (f a) (sdrop i s)) = fst (run_state (f a) (sdrop i t))"
    and s'': "snd (run_state (f a) (sdrop i s)) = sdrop l (sdrop i s)"
    and t'': "snd (run_state (f a) (sdrop i t)) = sdrop l (sdrop i t)"
    unfolding reads_def by blast
  have "i + l \<le> k + j" using i l by simp
  then show "fst (run_state (State_Monad.bind m f) s) = fst (run_state (State_Monad.bind m f) t)
      \<and> (\<exists>n \<le> k + j. snd (run_state (State_Monad.bind m f) s) = sdrop n s
                   \<and> snd (run_state (State_Monad.bind m f) t) = sdrop n t)"
    using res2 s'' t'' by (auto simp: ms mt)
qed

lemma reads_if: "reads k m1 \<Longrightarrow> reads j m2 \<Longrightarrow> reads (max k j) (if c then m1 else m2)"
  by (auto intro: reads_mono)

lemma reads_let: "reads k (f v) \<Longrightarrow> reads k (Let v f)"
  by simp

lemmas reads_rules = reads_bind reads_if reads_let reads_return reads_math_random

lemma reads_random_element: "reads 1 (random_element arr)"
  unfolding random_element_def
  by (rule reads_mono, (rule reads_rules)+, simp)

lemma reads_randomIncome: "reads 4 randomIncome"
  unfolding randomIncome_def
  by (rule reads_mono, (rule reads_rules)+, simp)

lemma reads_randomCredit: "reads 2 (randomCredit income)"
  unfolding randomCredit_def
  by (rule reads_mono, (rule reads_rules)+, simp)

lemma reads_randomAge: "reads 2 randomAge"
proof -
  have "reads 2 (do { r1 \<leftarrow> math_random; r2 \<leftarrow> math_random;
                      State_Monad.return (math_round (42 + 12 * (r1 + r2 - 1))) })"
    by (rule reads_mono, (rule reads_rules)+, simp)
  moreover have "randomAge = do { r1 \<leftarrow> math_random; r2 \<leftarrow> math_random;
                      State_Monad.return (math_round (42 + 12 * (r1 + r2 - 1))) }"
    by (rule state_ext) (simp add: randomAge_def randomAge_loop_once math_random_def
        del: randomAge_loop.simps)
  ultimately show ?thesis by simp
qed

lemma reads_generateRecord: "reads 27 (generateRecord i)"
  unfolding generateRecord_def
  by (rule reads_mono,
      (rule reads_rules reads_random_element reads_randomIncome reads_randomCredit
        reads_randomAge)+, simp)

lemma reads_traverse_list:
  "reads (27 * length ixs) (traverse_list generateRecord ixs)"
proof (induction ixs)
  case Nil
  show ?case by (simp add: reads_return)
next
  case (Cons i ixs)
  have "reads (27 + (27 * length ixs + 0))
          (do { y \<leftarrow> generateRecord i; ys \<leftarrow> traverse_list generateRecord ixs;
                State_Monad.return (y # ys) })"
    by (intro reads_bind reads_return reads_generateRecord Cons.IH)
  then show ?case by simp
qed

lemma reads_generateCompleteDataset:
  "reads (27 * numRecords) (generateCompleteDataset numRecords)"
proof -
  have "reads (27 * numRecords + 0) (generateCompleteDataset numRecords)"
    unfolding generateCompleteDataset_def generateSyntheticData_def
    using reads_traverse_list [of "[0 ..< numRecords]"]
    by (intro reads_bind reads_let reads_return) simp
  then show ?thesis by simp
qed

lemma length_traverse_list:
  "length (fst (run_state (traverse_list f ixs) s)) = length ixs"
  by (induction ixs arbitrary: s) (simp_all add: split_def)

lemma derivation_TARGET:
  "map TARGET (addIncomeBrackets (preprocessData records)) = map TARGET records"
proof -
  obtain derived where out: "addIncomeBrackets (preprocessData records) = map derived records"
    and upd: "\<And>r. \<exists>a e d l c b. derived r =
           r \<lparr> AGE_YEARS := Some a, EMPLOYMENT_YEARS := Some e, DTI := Some d,
               LOAN_TO_INCOME := Some l, ANNUITY_TO_CREDIT := Some c,
               INCOME_BRACKET := Some b \<rparr>"
    using derivation_shape by blast
  have "TARGET (derived r) = TARGET r" for r
    using upd [of r] by auto
  then show ?thesis by (simp add: out)
qed

lemma risk_upper: "getDefaultRiskByProfile age income edu employment \<le> 1 / 2"
  unfolding risk_composed by simp

lemma risk_lower: "1 / 100 < getDefaultRiskByProfile age income edu employment"
proof -
  define p where "p = age_factor age * income_factor income"
  define q where "q = p * education_factor edu"
  define r where "r = q * employment_factor employment"
  have a: "1 \<le> age_factor age" by (simp add: age_factor_def)
  have i: "6 / 10 \<le> income_factor income" by (simp add: income_factor_def)
  have e: "7 / 10 \<le> education_factor edu" by (simp add: education_factor_def)
  have m: "8 / 10 \<le> employment_factor employment" by (simp add: employment_factor_def)
  have a0: "0 \<le> age_factor age" using a by simp
  have p: "1 * (6 / 10) \<le> p"
    unfolding p_def by (rule mult_mono [OF a i a0]) simp
  then have p0: "0 \<le> p" by simp
  have q: "1 * (6 / 10) * (7 / 10) \<le> q"
    unfolding q_def by (rule mult_mono [OF p e p0]) simp
  then have q0: "0 \<le> q" by simp
  have r: "1 * (6 / 10) * (7 / 10) * (8 / 10) \<le> r"
    unfolding r_def by (rule mult_mono [OF q m q0]) simp
  then have "1 / 100 < min 0.5 (0.08 * r)" by simp
  then show ?thesis
    unfolding risk_composed r_def q_def p_def by (simp add: mult.assoc)
qed

lemma target_of_constant_stream:
  "TARGET (fst (run_state (generateRecord i) (sconst d))) =
     (if Rep_draw d < 1 / 100 then Target1 else if 1 / 2 \<le> Rep_draw d then Target0
      else TARGET (fst (run_state (generateRecord i) (sconst d))))"
proof -
  have low: "Rep_draw d < 1 / 100 \<Longrightarrow> Rep_draw d < getDefaultRiskByProfile a b c e" for a b c e
    using risk_lower [of a b c e] by simp
  have high: "1 / 2 \<le> Rep_draw d \<Longrightarrow> \<not> Rep_draw d < getDefaultRiskByProfile a b c e" for a b c e
    using risk_upper [of a b c e] by simp
  show ?thesis
    unfolding generateRecord_def
    by (simp add: math_random_def random_element_def randomAge_def randomAge_loop_once
        randomIncome_def randomCredit_def Let_def split_def low high
        del: randomAge_loop.simps)
qed

lemma target_of_low_draws:
  assumes "Rep_draw d < 1 / 100"
  shows "TARGET (fst (run_state (generateRecord i) (sconst d))) = Target1"
proof -
  have "TARGET (fst (run_state (generateRecord i) (sconst d))) =
     (if Rep_draw d < 1 / 100 then Target1 else if 1 / 2 \<le> Rep_draw d then Target0
      else TARGET (fst (run_state (generateRecord i) (sconst d))))"
    by (rule target_of_constant_stream)
  also have "\<dots> = Target1" using assms by simp
  finally show ?thesis .
qed

lemma target_of_high_draws:
  assumes "1 / 2 \<le> Rep_draw d"
  shows "TARGET (fst (run_state (generateRecord i) (sconst d))) = Target0"
proof -
  have "TARGET (fst (run_state (generateRecord i) (sconst d))) =
     (if Rep_draw d < 1 / 100 then Target1 else if 1 / 2 \<le> Rep_draw d then Target0
      else TARGET (fst (run_state (generateRecord i) (sconst d))))"
    by (rule target_of_constant_stream)
  also have "\<dots> = Target0" using assms by simp
  finally show ?thesis .
qed

lemma targets_of_one_record:
  "map TARGET (fst (run_state (generateCompleteDataset 1) s))
     = [TARGET (fst (run_state (generateRecord 0) s))]"
proof -
  have "map TARGET (fst (run_state (generateCompleteDataset 1) s))
          = map TARGET (fst (run_state (generateSyntheticData 1) s))"
    by (simp add: generateCompleteDataset_def split_def derivation_TARGET)
  also have "\<dots> = [TARGET (fst (run_state (generateRecord 0) s))]"
    by (simp add: generateSyntheticData_def split_def)
  finally show ?thesis .
qed

text \<open>
  The draws are the only source of variation: two runs with the same count, one in
  which every draw is 3/4 and one in which every draw is 1/200, produce different
  target sequences.
\<close>

lemma runs_on_different_draws_differ:
  "map TARGET (fst (run_state (generateCompleteDataset 1) (sconst (Abs_draw (3 / 4)))))
     \<noteq> map TARGET (fst (run_state (generateCompleteDataset 1) (sconst (Abs_draw (1 / 200)))))"
proof -
  have hi: "Rep_draw (Abs_draw (3 / 4)) = 3 / 4" by (simp add: Abs_draw_inverse)
  have lo: "Rep_draw (Abs_draw (1 / 200)) = 1 / 200" by (simp add: Abs_draw_inverse)
  have "map TARGET (fst (run_state (generateCompleteDataset 1) (sconst (Abs_draw (3 / 4)))))
          = [Target0]"
    unfolding targets_of_one_record using target_of_high_draws [of "Abs_draw (3 / 4)" 0]
    by (simp add: hi)
  moreover have "map TARGET (fst (run_state (generateCompleteDataset 1) (sconst (Abs_draw (1 / 200)))))
          = [Target1]"
    unfolding targets_of_one_record using target_of_low_draws [of "Abs_draw (1 / 200)" 0]
    by (simp add: lo)
  ultimately show ?thesis by simp
qed

text \<open>
  C3. With the randomness source fixed the pipeline is deterministic. The source is the
  sequence of values that \<^verbatim>\<open>Math.random\<close> returns, and a seed is whatever determines
  that sequence (\<open>source\<close> maps a seed to it). Two runs with the same seed and the same
  record count return identical record sequences, in particular identical target
  sequences; it is enough that the two sequences agree on their first
  \<open>27 * numRecords\<close> values. A run returns exactly \<open>numRecords\<close> records and consumes
  at most 27 draws per record.
\<close>

theorem generateCompleteDataset_deterministic:
  "(seed1 = seed2 \<longrightarrow>
        fst (run_state (generateCompleteDataset numRecords) (source seed1))
          = fst (run_state (generateCompleteDataset numRecords) (source seed2))
        \<and> map TARGET (fst (run_state (generateCompleteDataset numRecords) (source seed1)))
          = map TARGET (fst (run_state (generateCompleteDataset numRecords) (source seed2))))
   \<and> (stake (27 * numRecords) s = stake (27 * numRecords) t \<longrightarrow>
        fst (run_state (generateCompleteDataset numRecords) s)
          = fst (run_state (generateCompleteDataset numRecords) t)
        \<and> map TARGET (fst (run_state (generateCompleteDataset numRecords) s))
          = map TARGET (fst (run_state (generateCompleteDataset numRecords) t)))
   \<and> length (fst (run_state (generateCompleteDataset numRecords) s)) = numRecords
   \<and> (\<exists>j \<le> 27 * numRecords.
         snd (run_state (generateCompleteDataset numRecords) s) = sdrop j s)"
proof -
  have "length (fst (run_state (generateCompleteDataset numRecords) s))
          = length (fst (run_state (generateSyntheticData numRecords) s))"
    using derivation_shape [of "fst (run_state (generateSyntheticData numRecords) s)"]
    by (auto simp: generateCompleteDataset_def split_def)
  then have len: "length (fst (run_state (generateCompleteDataset numRecords) s)) = numRecords"
    by (simp add: generateSyntheticData_def length_traverse_list)
  have agree: "fst (run_state (generateCompleteDataset numRecords) s)
          = fst (run_state (generateCompleteDataset numRecords) t)"
    if "stake (27 * numRecords) s = stake (27 * numRecords) t"
    using reads_generateCompleteDataset [of numRecords] that unfolding reads_def by blast
  have consumed: "\<exists>j \<le> 27 * numRecords.
         snd (run_state (generateCompleteDataset numRecords) s) = sdrop j s"
    using reads_generateCompleteDataset [of numRecords] unfolding reads_def by blast
  from len agree consumed show ?thesis by simp
qed

theorem generateCompleteDataset_deterministic_witness:
  "fst (run_state (generateCompleteDataset 1)
         (replicate 27 (Abs_draw (3 / 4)) @- sconst (Abs_draw (1 / 200))))
     = fst (run_state (generateCompleteDataset 1) (sconst (Abs_draw (3 / 4))))
   \<and> length (fst (run_state (generateCompleteDataset 1) (sconst (Abs_draw (3 / 4))))) = 1
   \<and> (replicate 27 (Abs_draw (3 / 4)) @- sconst (Abs_draw (1 / 200))) !! 27
       \<noteq> sconst (Abs_draw (3 / 4)) !! 27
   \<and> map TARGET (fst (run_state (generateCompleteDataset 1)
                        ((\<lambda>seed :: nat. sconst (Abs_draw (1 / real (seed + 2)))) 7)))
       = map TARGET (fst (run_state (generateCompleteDataset 1)
                        ((\<lambda>seed :: nat. sconst (Abs_draw (1 / real (seed + 2)))) 7)))"
proof -
  let ?s = "replicate 27 (Abs_draw (3 / 4)) @- sconst (Abs_draw (1 / 200))"
  let ?t = "sconst (Abs_draw (3 / 4))"
  have t: "?t = replicate 27 (Abs_draw (3 / 4)) @- ?t" by simp
  have "stake (27 * 1) ?s = replicate 27 (Abs_draw (3 / 4))"
    by (simp add: stake_shift)
  moreover have "stake (27 * 1) ?t = replicate 27 (Abs_draw (3 / 4))"
    by (subst t) (simp add: stake_shift del: shift_replicate_sconst)
  ultimately have "stake (27 * 1) ?s = stake (27 * 1) ?t" by simp
  moreover have "?s !! 27 \<noteq> ?t !! 27"
    by (simp add: Abs_draw_inject)
  moreover have "(7 :: nat) = 7" by simp
  ultimately show ?thesis
    using generateCompleteDataset_deterministic [where numRecords = 1 and s = ?s and t = ?t
        and ?seed1.0 = "7 :: nat" and ?seed2.0 = "7 :: nat"
        and source = "\<lambda>seed :: nat. sconst (Abs_draw (1 / real (seed + 2)))"]
      generateCompleteDataset_deterministic [where numRecords = 1 and s = ?t and t = ?t
        and ?seed1.0 = "7 :: nat" and ?seed2.0 = "7 :: nat"
        and source = "\<lambda>seed :: nat. sconst (Abs_draw (1 / real (seed + 2)))"]
    by blast
qed

end
